theory Spec2Isabelle
  imports Main "HOL-Library.Multiset"
begin

section \<open>JavaScript values used by the application\<close>

text \<open>
  The application is a single React component (\<^verbatim>\<open>src/src/App.tsx\<close>; the file
  \<^verbatim>\<open>src/unnamed/part_000\<close> is a second version of the same component in which a
  dictionary entry is a bare word). A JavaScript string is modelled as a \<open>string\<close>, a list
  of code units in the range 0..255; a \<open>Blob\<close> as the list of its bytes, so that
  \<open>blob.size\<close> is \<open>length\<close>; a number holding a time in milliseconds as an \<open>int\<close>.
  A thrown value or a rejected promise is a value of \<open>js_error\<close>; a computation that may
  throw returns \<open>js_error + 'a\<close>.
\<close>

type_synonym blob = "nat list"

datatype js_error =
    Error string            \<comment> \<open>\<^verbatim>\<open>new Error(message)\<close>\<close>
  | TypeError               \<comment> \<open>reading a property of \<^verbatim>\<open>null\<close>\<close>
  | SyntaxError             \<comment> \<open>\<^verbatim>\<open>new RegExp\<close> on an invalid pattern\<close>
  | ProgressEvent           \<comment> \<open>the event a failing \<^verbatim>\<open>FileReader\<close> rejects with\<close>
  | ServiceError string     \<comment> \<open>a rejection of a call of the backend client\<close>

section \<open>The regular expression of the substitution step\<close>

text \<open>
  \<^verbatim>\<open>processRecording\<close> builds \<^verbatim>\<open>new RegExp(`\\b${entry.word}\\b`, 'gi')\<close> and calls
  \<^verbatim>\<open>processedText.replace(regex, entry.replacement)\<close>. Both are built-ins of the
  language; they are modelled after ECMAScript (RegExp without the \<open>u\<close> flag).

  \<^item> \<open>is_word_char\<close> is the class \<^verbatim>\<open>\w\<close> that \<^verbatim>\<open>\b\<close> tests: \<^verbatim>\<open>[A-Za-z0-9_]\<close>.
  \<^item> \<open>canonicalize\<close> is the case folding of the \<open>i\<close> flag: the upper-case form of the
    code unit, when that is a single code unit (on 0..255: the letters \<open>a\<close>..\<open>z\<close> and
    the lower-case letters of Latin-1 with an upper-case form in Latin-1).
  \<^item> The word is pattern source. A character that is not a syntax character
    (\<^verbatim>\<open>^ $ \ . * + ? ( ) [ ] { } |\<close>) matches itself up to case; \<^verbatim>\<open>.\<close> matches every
    character but a line terminator. Words with another syntax character are outside of
    what is modelled here: for them the engine is the parameter \<open>regexp_ext\<close> of the
    environment, which returns what \<^verbatim>\<open>text.replace(new RegExp(...), replacement)\<close>
    evaluates to, or the error it throws.
\<close>

definition is_word_char :: "char \<Rightarrow> bool" where
  "is_word_char c =
     (let n = (of_char c :: nat)
      in (48 \<le> n \<and> n \<le> 57) \<or> (65 \<le> n \<and> n \<le> 90) \<or> n = 95 \<or> (97 \<le> n \<and> n \<le> 122))"

definition canonicalize :: "char \<Rightarrow> char" where
  "canonicalize c =
     (let n = (of_char c :: nat)
      in if (97 \<le> n \<and> n \<le> 122) \<or> (224 \<le> n \<and> n \<le> 254 \<and> n \<noteq> 247)
         then char_of (n - 32) else c)"

definition is_line_terminator :: "char \<Rightarrow> bool" where
  "is_line_terminator c = ((of_char c :: nat) = 10 \<or> (of_char c :: nat) = 13)"

definition syntax_characters :: "char list" where
  "syntax_characters = ''^$.*+?()[]{}|'' @ [CHR 0x5C]"

datatype rx_item = Lit char | AnyChar

fun item_matches :: "rx_item \<Rightarrow> char \<Rightarrow> bool" where
  "item_matches (Lit k) c = (canonicalize c = canonicalize k)"
| "item_matches AnyChar c = (\<not> is_line_terminator c)"

text \<open>The pattern source between the two \<^verbatim>\<open>\b\<close>; \<open>None\<close> outside of the modelled syntax.\<close>

fun parse_word :: "string \<Rightarrow> rx_item list option" where
  "parse_word [] = Some []"
| "parse_word (c # cs) =
     (if c = CHR ''.'' then map_option (Cons AnyChar) (parse_word cs)
      else if c \<in> set syntax_characters then None
      else map_option (Cons (Lit c)) (parse_word cs))"

text \<open>
  \<^verbatim>\<open>\b\<close> at a position, given the text before it and the text from it on: exactly one
  of the two neighbouring characters is a word character (the ends of the text count as
  non-word).
\<close>

definition is_word_boundary :: "string \<Rightarrow> string \<Rightarrow> bool" where
  "is_word_boundary pre suf =
     ((pre \<noteq> [] \<and> is_word_char (last pre)) \<noteq> (suf \<noteq> [] \<and> is_word_char (hd suf)))"

text \<open>The items against the text from a position on: the matched text and the rest.\<close>

fun match_items :: "rx_item list \<Rightarrow> string \<Rightarrow> (string \<times> string) option" where
  "match_items [] s = Some ([], s)"
| "match_items (i # is) [] = None"
| "match_items (i # is) (c # cs) =
     (if item_matches i c
      then (case match_items is cs of Some (m, r) \<Rightarrow> Some (c # m, r) | None \<Rightarrow> None)
      else None)"

definition match_at :: "rx_item list \<Rightarrow> string \<Rightarrow> string \<Rightarrow> (string \<times> string) option" where
  "match_at items pre suf =
     (if is_word_boundary pre suf
      then (case match_items items suf of
              Some (m, r) \<Rightarrow> if is_word_boundary (pre @ m) r then Some (m, r) else None
            | None \<Rightarrow> None)
      else None)"

text \<open>
  \<open>GetSubstitution\<close> for a pattern without capture groups: in the replacement,
  \<^verbatim>\<open>$$\<close> is a dollar sign, \<^verbatim>\<open>$&\<close> the matched text, \<^verbatim>\<open>$`\<close> the text before the match and
  \<^verbatim>\<open>$'\<close> the text after it; every other character, a dollar sign before a digit or
  \<^verbatim>\<open><\<close> included, stands for itself.
\<close>

fun get_substitution :: "string \<Rightarrow> string \<Rightarrow> string \<Rightarrow> string \<Rightarrow> string" where
  "get_substitution pre m post [] = []"
| "get_substitution pre m post [c] = [c]"
| "get_substitution pre m post (c # d # ds) =
     (if c = CHR ''$'' then
        (if d = CHR ''$'' then CHR ''$'' # get_substitution pre m post ds
         else if d = CHR ''&'' then m @ get_substitution pre m post ds
         else if d = CHR 0x60 then pre @ get_substitution pre m post ds
         else if d = CHR 0x27 then post @ get_substitution pre m post ds
         else c # get_substitution pre m post (d # ds))
      else c # get_substitution pre m post (d # ds))"

lemma match_items_append: "match_items items s = Some (m, r) \<Longrightarrow> s = m @ r"
  by (induction items s arbitrary: m r rule: match_items.induct)
     (auto split: if_splits option.splits)

lemma match_at_append: "match_at items pre s = Some (m, r) \<Longrightarrow> s = m @ r"
  by (auto simp: match_at_def split: if_splits option.splits dest: match_items_append)

text \<open>
  \<^verbatim>\<open>String.prototype.replace\<close> with a global pattern: the matches are searched from left
  to right on the original text, each search starting where the last match ended, and one
  character further after an empty match; the text between the matches is kept.
\<close>

function replace_from :: "rx_item list \<Rightarrow> string \<Rightarrow> string \<Rightarrow> string \<Rightarrow> string" where
  "replace_from items repl pre suf =
     (case match_at items pre suf of
        Some (m, r) \<Rightarrow>
          get_substitution pre m r repl @
            (if m = [] then (case suf of [] \<Rightarrow> [] | c # cs \<Rightarrow> c # replace_from items repl (pre @ [c]) cs)
             else replace_from items repl (pre @ m) r)
      | None \<Rightarrow> (case suf of [] \<Rightarrow> [] | c # cs \<Rightarrow> c # replace_from items repl (pre @ [c]) cs))"
  by pat_completeness auto
termination
  by (relation "measure (\<lambda>(items, repl, pre, suf). length suf)")
     (auto dest!: match_at_append sym [THEN match_at_append])

declare replace_from.simps [simp del]

section \<open>Data model\<close>

text \<open>
  \<^verbatim>\<open>interface VoiceNote\<close> and \<^verbatim>\<open>interface DictionaryEntry\<close>. The fields \<^verbatim>\<open>id\<close> and
  \<^verbatim>\<open>text\<close> of a note are named \<open>note_id\<close> and \<open>note_text\<close>. In
  \<^verbatim>\<open>src/unnamed/part_000\<close> an entry has the field \<^verbatim>\<open>word\<close> only (\<open>DictionaryWord\<close>); in
  \<^verbatim>\<open>src/src/App.tsx\<close> it has a \<^verbatim>\<open>replacement\<close> too (\<open>DictionaryEntry\<close>). What both versions
  share is written once, over \<open>'x DictionaryWord_scheme\<close>.
\<close>

record VoiceNote =
  note_id :: string
  note_text :: string
  original_text :: string
  timestamp :: int
  duration :: int

record DictionaryWord =
  word :: string

record DictionaryEntry = DictionaryWord +
  replacement :: string

record user =
  user_id :: string
  email :: string

section \<open>The substitution step\<close>

text \<open>
  \<^verbatim>\<open>processedText.replace(new RegExp(`\\b${entry.word}\\b`, 'gi'), entry.replacement)\<close>
  for one entry, and the \<^verbatim>\<open>dictionary.forEach\<close> loop of \<^verbatim>\<open>processRecording\<close>
  (\<^verbatim>\<open>src/src/App.tsx\<close>, lines 160 to 165): the entries are applied one after the other,
  each to the text the entries before it have produced, and an error thrown by one of them
  leaves the loop.
\<close>

type_synonym regexp_engine = "string \<Rightarrow> string \<Rightarrow> string \<Rightarrow> js_error + string"

definition replace_entry :: "regexp_engine \<Rightarrow> DictionaryEntry \<Rightarrow> string \<Rightarrow> js_error + string" where
  "replace_entry ext entry processedText =
     (case parse_word (word entry) of
        Some items \<Rightarrow> Inr (replace_from items (replacement entry) [] processedText)
      | None \<Rightarrow> ext (word entry) (replacement entry) processedText)"

fun apply_dictionary :: "regexp_engine \<Rightarrow> DictionaryEntry list \<Rightarrow> string \<Rightarrow> js_error + string" where
  "apply_dictionary ext [] processedText = Inr processedText"
| "apply_dictionary ext (entry # entries) processedText =
     (case replace_entry ext entry processedText of
        Inl e \<Rightarrow> Inl e
      | Inr t \<Rightarrow> apply_dictionary ext entries t)"

section \<open>The environment: the browser and the backend client\<close>

text \<open>
  The component calls the browser (\<^verbatim>\<open>getUserMedia\<close>, \<^verbatim>\<open>FileReader\<close>) and the backend
  client \<^verbatim>\<open>blink\<close> (\<^verbatim>\<open>blink.ai\<close>, \<^verbatim>\<open>blink.db\<close>), whose code is not part of the
  repository. The environment gives the outcome of each such call as a function of its
  arguments: a handler calls each of them at most once, so this covers every outcome.
  \<open>readAsDataURL\<close> is \<open>None\<close> when the reader fires \<^verbatim>\<open>onerror\<close>. \<open>regexp_ext\<close> is the
  regular expression engine of the language on the patterns that are not modelled above.
\<close>

record 'e env =
  getUserMedia :: "js_error + unit"
  readAsDataURL :: "blob \<Rightarrow> string option"
  transcribeAudio :: "string \<Rightarrow> string \<Rightarrow> js_error + string"
  generateText :: "string \<Rightarrow> js_error + string"
  voice_notes_create :: "VoiceNote \<Rightarrow> string \<Rightarrow> js_error + unit"
  voice_notes_delete :: "string \<Rightarrow> js_error + unit"
  dictionary_entries_create :: "'e \<Rightarrow> string \<Rightarrow> js_error + unit"
  dictionary_entries_delete :: "string \<Rightarrow> js_error + unit"
  regexp_ext :: regexp_engine

text \<open>The calls a handler makes, in the order it makes them.\<close>

datatype 'e call =
    GetUserMedia
  | ReadAsDataURL blob
  | TranscribeAudio string string
  | GenerateText string
  | VoiceNotesCreate VoiceNote string
  | VoiceNotesDelete string
  | DictionaryEntriesCreate 'e string
  | DictionaryEntriesDelete string

datatype toast = ToastSuccess string | ToastError string

section \<open>The state of the component\<close>

text \<open>
  The \<^verbatim>\<open>useState\<close> variables of \<^verbatim>\<open>App\<close>. A handler is a closure of one render: it reads
  the values the state variables had at that render. A handler the user interface invokes
  belongs to the current render. The \<^verbatim>\<open>onstop\<close> handler of a recorder is created inside
  \<^verbatim>\<open>startRecording\<close> and keeps the render \<^verbatim>\<open>startRecording\<close> ran in: the values of
  \<^verbatim>\<open>recordingStart\<close>, \<^verbatim>\<open>dictionary\<close> and \<^verbatim>\<open>user\<close> it reads are stored with the recorder
  (\<open>onstop_recordingStart\<close>, \<open>onstop_dictionary\<close>, \<open>onstop_user\<close>). The setters act on the
  current state; \<^verbatim>\<open>setVoiceNotes(prev => ...)\<close> and \<^verbatim>\<open>setDictionary(prev => ...)\<close> update
  the current collection.
\<close>

datatype recorder_state = Inactive | Recording

record 'e MediaRecorder =
  rec_state :: recorder_state
  chunks :: "blob list"
  onstop_recordingStart :: int
  onstop_dictionary :: "'e list"
  onstop_user :: "user option"

record 'e app_state =
  isRecording :: bool
  isTranscribing :: bool
  currentNote :: string
  voiceNotes :: "VoiceNote list"
  dictionary :: "'e list"
  newWord :: string
  newReplacement :: string
  mediaRecorder :: "'e MediaRecorder option"
  recordingStart :: int
  user :: "user option"

text \<open>
  The state with what the handlers leave behind: the calls made, the toasts shown and
  the errors written with \<^verbatim>\<open>console.error\<close>.
\<close>

record 'e world =
  app :: "'e app_state"
  calls :: "'e call list"
  toasts :: "toast list"
  console :: "(string \<times> js_error) list"

definition initial_state :: "'e app_state" where
  "initial_state =
     \<lparr>isRecording = False, isTranscribing = False, currentNote = [], voiceNotes = [],
      dictionary = [], newWord = [], newReplacement = [], mediaRecorder = None,
      recordingStart = 0, user = None\<rparr>"

definition initial_world :: "'e world" where
  "initial_world = \<lparr>app = initial_state, calls = [], toasts = [], console = []\<rparr>"

section \<open>Recording\<close>

text \<open>
  \<^verbatim>\<open>recorder.ondataavailable\<close>: \<^verbatim>\<open>if (event.data.size > 0) chunks.push(event.data)\<close>.
\<close>

definition ondataavailable :: "blob list \<Rightarrow> blob \<Rightarrow> blob list" where
  "ondataavailable cs data = (if length data > 0 then cs @ [data] else cs)"

text \<open>
  \<^verbatim>\<open>startRecording\<close>, at the time \<open>now\<close> of its \<^verbatim>\<open>Date.now()\<close>. The \<^verbatim>\<open>onstop\<close> closure is
  built before \<^verbatim>\<open>setRecordingStart(Date.now())\<close> and reads the \<^verbatim>\<open>recordingStart\<close> of the
  render the handler runs in. The handler fails when \<^verbatim>\<open>getUserMedia\<close> rejects;
  \<^verbatim>\<open>new MediaRecorder(stream)\<close> and \<^verbatim>\<open>recorder.start(100)\<close> are taken to succeed.
\<close>

definition startRecording :: "'e env \<Rightarrow> int \<Rightarrow> 'e world \<Rightarrow> 'e world" where
  "startRecording env now w =
     (case getUserMedia env of
        Inl e \<Rightarrow>
          w\<lparr>calls := calls w @ [GetUserMedia],
            console := console w @ [(''Error starting recording:'', e)],
            toasts := toasts w @ [ToastError ''Failed to start recording'']\<rparr>
      | Inr _ \<Rightarrow>
          (let recorder =
                 \<lparr>rec_state = Recording, chunks = [],
                  onstop_recordingStart = recordingStart (app w),
                  onstop_dictionary = dictionary (app w),
                  onstop_user = user (app w)\<rparr>
           in w\<lparr>app := (app w)\<lparr>mediaRecorder := Some recorder, recordingStart := now,
                                 isRecording := True\<rparr>,
                 calls := calls w @ [GetUserMedia],
                 toasts := toasts w @ [ToastSuccess ''Recording started'']\<rparr>))"

text \<open>The recorder delivers a slice of audio to \<^verbatim>\<open>ondataavailable\<close>.\<close>

definition dataavailable :: "blob \<Rightarrow> 'e world \<Rightarrow> 'e world" where
  "dataavailable data w =
     (case mediaRecorder (app w) of
        None \<Rightarrow> w
      | Some recorder \<Rightarrow>
          w\<lparr>app := (app w)\<lparr>mediaRecorder :=
                 Some (recorder\<lparr>chunks := ondataavailable (chunks recorder) data\<rparr>)\<rparr>\<rparr>)"

text \<open>
  \<^verbatim>\<open>stopRecording\<close>. \<^verbatim>\<open>mediaRecorder.stop()\<close> makes the recorder inactive; the recorder
  then delivers the last slice and fires \<^verbatim>\<open>onstop\<close>. Stopping the tracks of the stream
  changes nothing of the state modelled here.
\<close>

definition stopRecording :: "'e world \<Rightarrow> 'e world" where
  "stopRecording w =
     (case mediaRecorder (app w) of
        None \<Rightarrow> w
      | Some recorder \<Rightarrow>
          if rec_state recorder = Recording
          then w\<lparr>app := (app w)\<lparr>mediaRecorder := Some (recorder\<lparr>rec_state := Inactive\<rparr>),
                                  isRecording := False, isTranscribing := True\<rparr>,
                  toasts := toasts w @ [ToastSuccess ''Recording stopped, transcribing...'']\<rparr>
          else w)"

section \<open>The recording pipeline\<close>

text \<open>
  \<^verbatim>\<open>processRecording\<close>, lines 121 to 131: the two checks on the recorded audio.
  \<open>None\<close> is an \<^verbatim>\<open>audioChunks\<close> that is \<^verbatim>\<open>null\<close> or \<^verbatim>\<open>undefined\<close>;
  \<^verbatim>\<open>new Blob(audioChunks)\<close> is the concatenation of the chunks.
\<close>

definition verify_audio_data :: "blob list option \<Rightarrow> js_error + blob" where
  "verify_audio_data audioChunks =
     (case audioChunks of
        None \<Rightarrow> Inl (Error ''No audio data recorded'')
      | Some cs \<Rightarrow>
          if length cs = 0 then Inl (Error ''No audio data recorded'')
          else (let audioBlob = concat cs
                in if length audioBlob = 0 then Inl (Error ''Audio recording is empty'')
                   else Inr audioBlob))"

text \<open>\<^verbatim>\<open>s.split(c)\<close> for a separator of one character, and \<^verbatim>\<open>xs[1]\<close>.\<close>

fun split_on :: "char \<Rightarrow> string \<Rightarrow> string list" where
  "split_on c [] = [[]]"
| "split_on c (x # xs) =
     (if x = c then [] # split_on c xs
      else (case split_on c xs of [] \<Rightarrow> [[x]] | y # ys \<Rightarrow> (x # y) # ys))"

fun second :: "'a list \<Rightarrow> 'a option" where
  "second (a # b # xs) = Some b"
| "second xs = None"

text \<open>
  Lines 137 to 150: the promise around the \<^verbatim>\<open>FileReader\<close>. It rejects with the reader's
  event when the reader fails, and with an \<^verbatim>\<open>Error\<close> when the data URL has nothing after
  its first comma.
\<close>

definition convert_to_base64 :: "'e env \<Rightarrow> blob \<Rightarrow> js_error + string" where
  "convert_to_base64 env audioBlob =
     (case readAsDataURL env audioBlob of
        None \<Rightarrow> Inl ProgressEvent
      | Some dataUrl \<Rightarrow>
          (case second (split_on CHR '','' dataUrl) of
             None \<Rightarrow> Inl (Error ''Failed to convert audio to base64'')
           | Some base64Data \<Rightarrow>
               if length base64Data = 0 then Inl (Error ''Failed to convert audio to base64'')
               else Inr base64Data))"

text \<open>\<^verbatim>\<open>Date.now().toString()\<close>: the decimal digits of an integer.\<close>

fun decimal :: "nat \<Rightarrow> string" where
  "decimal n =
     (if n < 10 then [char_of (48 + n)] else decimal (n div 10) @ [char_of (48 + n mod 10)])"

definition number_toString :: "int \<Rightarrow> string" where
  "number_toString i = (if i < 0 then CHR ''-'' # decimal (nat (- i)) else decimal (nat i))"

text \<open>The prompt of the correction call in \<^verbatim>\<open>src/src/App.tsx\<close> (lines 169 to 179).\<close>

definition prompt_head :: string where
  "prompt_head =
     ''Please correct grammar, improve formatting, and make this text more professional while preserving the original meaning and intent:''
     @ [CHR 0x0A, CHR 0x0A, CHR 0x22]"

definition prompt_tail :: string where
  "prompt_tail =
     [CHR 0x22, CHR 0x0A, CHR 0x0A] @ ''Rules:'' @ [CHR 0x0A]
     @ ''- Fix grammar and spelling errors'' @ [CHR 0x0A]
     @ ''- Improve sentence structure'' @ [CHR 0x0A]
     @ ''- Add proper punctuation'' @ [CHR 0x0A]
     @ ''- Make it more professional but keep the original tone'' @ [CHR 0x0A]
     @ ''- Don'' @ [CHR 0x27] @ ''t change the core meaning'' @ [CHR 0x0A]
     @ ''- Return only the corrected text without explanations''"

definition correction_prompt :: "string \<Rightarrow> string" where
  "correction_prompt processedText = prompt_head @ processedText @ prompt_tail"

text \<open>
  The body of the \<^verbatim>\<open>try\<close> block of \<^verbatim>\<open>processRecording\<close> in \<^verbatim>\<open>src/src/App.tsx\<close> up to
  the call that stores the note: the error thrown or the note stored, and the calls made.
  \<open>dict\<close> and \<open>usr\<close> are the \<^verbatim>\<open>dictionary\<close> and \<^verbatim>\<open>user\<close> of the closure; \<open>t_id\<close> and
  \<open>t_ts\<close> are the times of the two \<^verbatim>\<open>Date.now()\<close> of the note. \<^verbatim>\<open>user.id\<close> throws when
  \<^verbatim>\<open>user\<close> is \<^verbatim>\<open>null\<close>.
\<close>

definition processRecording_try ::
  "DictionaryEntry env \<Rightarrow> DictionaryEntry list \<Rightarrow> user option \<Rightarrow> blob list option \<Rightarrow>
   int \<Rightarrow> int \<Rightarrow> int \<Rightarrow> (js_error + VoiceNote) \<times> DictionaryEntry call list" where
  "processRecording_try env dict usr audioChunks dur t_id t_ts =
     (case verify_audio_data audioChunks of
        Inl e \<Rightarrow> (Inl e, [])
      | Inr audioBlob \<Rightarrow>
     (case convert_to_base64 env audioBlob of
        Inl e \<Rightarrow> (Inl e, [ReadAsDataURL audioBlob])
      | Inr base64 \<Rightarrow>
     (case transcribeAudio env base64 ''en'' of
        Inl e \<Rightarrow> (Inl e, [ReadAsDataURL audioBlob, TranscribeAudio base64 ''en''])
      | Inr originalText \<Rightarrow>
     (case apply_dictionary (regexp_ext env) dict originalText of
        Inl e \<Rightarrow> (Inl e, [ReadAsDataURL audioBlob, TranscribeAudio base64 ''en''])
      | Inr processedText \<Rightarrow>
     (case generateText env (correction_prompt processedText) of
        Inl e \<Rightarrow>
          (Inl e, [ReadAsDataURL audioBlob, TranscribeAudio base64 ''en'',
                   GenerateText (correction_prompt processedText)])
      | Inr correctedText \<Rightarrow>
          (let newNote =
                 \<lparr>note_id = number_toString t_id, note_text = correctedText,
                  original_text = originalText, timestamp = t_ts, duration = dur\<rparr>
           in (case usr of
                 None \<Rightarrow>
                   (Inl TypeError, [ReadAsDataURL audioBlob, TranscribeAudio base64 ''en'',
                                    GenerateText (correction_prompt processedText)])
               | Some u \<Rightarrow>
                   (case voice_notes_create env newNote (user_id u) of
                      Inl e \<Rightarrow>
                        (Inl e, [ReadAsDataURL audioBlob, TranscribeAudio base64 ''en'',
                                 GenerateText (correction_prompt processedText),
                                 VoiceNotesCreate newNote (user_id u)])
                    | Inr _ \<Rightarrow>
                        (Inr newNote, [ReadAsDataURL audioBlob, TranscribeAudio base64 ''en'',
                                       GenerateText (correction_prompt processedText),
                                       VoiceNotesCreate newNote (user_id u)])))))))))"

text \<open>
  What follows the stored note (lines 196 to 199) and the \<^verbatim>\<open>catch\<close> block (lines 200 to
  204), shared by both versions of \<^verbatim>\<open>processRecording\<close>.
\<close>

definition finish_recording ::
  "(js_error + VoiceNote) \<times> 'e call list \<Rightarrow> 'e world \<Rightarrow> 'e world" where
  "finish_recording outcome w =
     (case outcome of
        (Inr newNote, cs) \<Rightarrow>
          w\<lparr>app := (app w)\<lparr>currentNote := note_text newNote,
                              voiceNotes := newNote # voiceNotes (app w),
                              isTranscribing := False\<rparr>,
            calls := calls w @ cs,
            toasts := toasts w @ [ToastSuccess ''Transcription completed!'']\<rparr>
      | (Inl e, cs) \<Rightarrow>
          w\<lparr>app := (app w)\<lparr>isTranscribing := False\<rparr>,
            calls := calls w @ cs,
            console := console w @ [(''Error processing recording:'', e)],
            toasts := toasts w @ [ToastError ''Failed to process recording'']\<rparr>)"

definition processRecording ::
  "DictionaryEntry env \<Rightarrow> DictionaryEntry list \<Rightarrow> user option \<Rightarrow> blob list option \<Rightarrow>
   int \<Rightarrow> int \<Rightarrow> int \<Rightarrow> DictionaryEntry world \<Rightarrow> DictionaryEntry world" where
  "processRecording env dict usr audioChunks dur t_id t_ts w =
     finish_recording (processRecording_try env dict usr audioChunks dur t_id t_ts) w"

text \<open>
  \<^verbatim>\<open>recorder.onstop\<close> (lines 93 to 96), at the time \<open>now\<close> of its \<^verbatim>\<open>Date.now()\<close>:
  \<^verbatim>\<open>const duration = Date.now() - recordingStart\<close>, with the \<^verbatim>\<open>recordingStart\<close> of the
  closure.
\<close>

definition onstop ::
  "DictionaryEntry env \<Rightarrow> int \<Rightarrow> int \<Rightarrow> int \<Rightarrow> DictionaryEntry world \<Rightarrow> DictionaryEntry world" where
  "onstop env now t_id t_ts w =
     (case mediaRecorder (app w) of
        None \<Rightarrow> w
      | Some recorder \<Rightarrow>
          processRecording env (onstop_dictionary recorder) (onstop_user recorder)
            (Some (chunks recorder)) (now - onstop_recordingStart recorder) t_id t_ts w)"

text \<open>
  \<^verbatim>\<open>processRecording\<close> in \<^verbatim>\<open>src/unnamed/part_000\<close>: the transcript is not rewritten; the
  non-empty words of the dictionary are listed in the prompt (lines 156 to 175).
\<close>

fun join :: "string \<Rightarrow> string list \<Rightarrow> string" where
  "join sep [] = []"
| "join sep [x] = x"
| "join sep (x # y # ys) = x @ sep @ join sep (y # ys)"

definition preferred_prompt :: "string list \<Rightarrow> string \<Rightarrow> string" where
  "preferred_prompt preferredWords processedText =
     ''You are transcribing a voice note for a user. Please correct grammar, improve formatting, and make this text more professional while preserving the original meaning and intent.''
     @ [CHR 0x0A] @ ''Here is the raw transcript:'' @ [CHR 0x0A, CHR 0x22]
     @ processedText @ [CHR 0x22, CHR 0x0A]
     @ ''The user has provided a list of special words and spellings they frequently use. When possible, prioritize using these words in the transcript:''
     @ [CHR 0x0A]
     @ (if length preferredWords \<noteq> 0 then join '', '' preferredWords else ''[none]'')
     @ [CHR 0x0A] @ ''Rules:'' @ [CHR 0x0A]
     @ ''- Fix grammar and spelling errors'' @ [CHR 0x0A]
     @ ''- Improve sentence structure'' @ [CHR 0x0A]
     @ ''- Add proper punctuation'' @ [CHR 0x0A]
     @ ''- Make it more professional but keep the original tone'' @ [CHR 0x0A]
     @ ''- Use the user'' @ [CHR 0x27] @ ''s preferred words above if they fit the context'' @ [CHR 0x0A]
     @ ''- Don'' @ [CHR 0x27] @ ''t change the core meaning'' @ [CHR 0x0A]
     @ ''- Return only the corrected text without explanations.''"

definition processRecording_part_000_try ::
  "DictionaryWord env \<Rightarrow> DictionaryWord list \<Rightarrow> user option \<Rightarrow> blob list option \<Rightarrow>
   int \<Rightarrow> int \<Rightarrow> int \<Rightarrow> (js_error + VoiceNote) \<times> DictionaryWord call list" where
  "processRecording_part_000_try env dict usr audioChunks dur t_id t_ts =
     (case verify_audio_data audioChunks of
        Inl e \<Rightarrow> (Inl e, [])
      | Inr audioBlob \<Rightarrow>
     (case convert_to_base64 env audioBlob of
        Inl e \<Rightarrow> (Inl e, [ReadAsDataURL audioBlob])
      | Inr base64 \<Rightarrow>
     (case transcribeAudio env base64 ''en'' of
        Inl e \<Rightarrow> (Inl e, [ReadAsDataURL audioBlob, TranscribeAudio base64 ''en''])
      | Inr originalText \<Rightarrow>
          (let preferredWords = filter (\<lambda>x. x \<noteq> []) (map word dict);
               processedText = originalText;
               prompt = preferred_prompt preferredWords processedText
           in (case generateText env prompt of
                 Inl e \<Rightarrow>
                   (Inl e, [ReadAsDataURL audioBlob, TranscribeAudio base64 ''en'',
                            GenerateText prompt])
               | Inr correctedText \<Rightarrow>
                   (let newNote =
                          \<lparr>note_id = number_toString t_id, note_text = correctedText,
                           original_text = originalText, timestamp = t_ts, duration = dur\<rparr>
                    in (case usr of
                          None \<Rightarrow>
                            (Inl TypeError, [ReadAsDataURL audioBlob, TranscribeAudio base64 ''en'',
                                             GenerateText prompt])
                        | Some u \<Rightarrow>
                            (case voice_notes_create env newNote (user_id u) of
                               Inl e \<Rightarrow>
                                 (Inl e, [ReadAsDataURL audioBlob, TranscribeAudio base64 ''en'',
                                          GenerateText prompt, VoiceNotesCreate newNote (user_id u)])
                             | Inr _ \<Rightarrow>
                                 (Inr newNote, [ReadAsDataURL audioBlob, TranscribeAudio base64 ''en'',
                                                GenerateText prompt,
                                                VoiceNotesCreate newNote (user_id u)])))))))))"

definition processRecording_part_000 ::
  "DictionaryWord env \<Rightarrow> DictionaryWord list \<Rightarrow> user option \<Rightarrow> blob list option \<Rightarrow>
   int \<Rightarrow> int \<Rightarrow> int \<Rightarrow> DictionaryWord world \<Rightarrow> DictionaryWord world" where
  "processRecording_part_000 env dict usr audioChunks dur t_id t_ts w =
     finish_recording (processRecording_part_000_try env dict usr audioChunks dur t_id t_ts) w"

text \<open>\<^verbatim>\<open>recorder.onstop\<close> in \<^verbatim>\<open>src/unnamed/part_000\<close> (lines 89 to 92).\<close>

definition onstop_part_000 ::
  "DictionaryWord env \<Rightarrow> int \<Rightarrow> int \<Rightarrow> int \<Rightarrow> DictionaryWord world \<Rightarrow> DictionaryWord world" where
  "onstop_part_000 env now t_id t_ts w =
     (case mediaRecorder (app w) of
        None \<Rightarrow> w
      | Some recorder \<Rightarrow>
          processRecording_part_000 env (onstop_dictionary recorder) (onstop_user recorder)
            (Some (chunks recorder)) (now - onstop_recordingStart recorder) t_id t_ts w)"

section \<open>The note store and the dictionary store\<close>

text \<open>
  \<^verbatim>\<open>String.prototype.trim\<close>: white space and line terminators are removed at both ends
  (among the code units 0..255: 9 to 13, 32 and 160).
\<close>

definition is_white_space :: "char \<Rightarrow> bool" where
  "is_white_space c =
     (let n = (of_char c :: nat) in (9 \<le> n \<and> n \<le> 13) \<or> n = 32 \<or> n = 160)"

definition trim :: "string \<Rightarrow> string" where
  "trim s = rev (dropWhile is_white_space (rev (dropWhile is_white_space s)))"

text \<open>The \<^verbatim>\<open>catch\<close> block of a store handler: the error is logged and a toast shown.\<close>

definition report :: "string \<Rightarrow> string \<Rightarrow> js_error \<Rightarrow> 'e call list \<Rightarrow> 'e world \<Rightarrow> 'e world" where
  "report log_message toast_message e cs w =
     w\<lparr>calls := calls w @ cs,
       console := console w @ [(log_message, e)],
       toasts := toasts w @ [ToastError toast_message]\<rparr>"

text \<open>\<^verbatim>\<open>addDictionaryEntry\<close> in \<^verbatim>\<open>src/src/App.tsx\<close> (lines 212 to 231).\<close>

definition addDictionaryEntry :: "DictionaryEntry env \<Rightarrow> DictionaryEntry world \<Rightarrow> DictionaryEntry world" where
  "addDictionaryEntry env w =
     (if trim (newWord (app w)) = [] \<or> trim (newReplacement (app w)) = [] then w
      else
        (case user (app w) of
           None \<Rightarrow>
             report ''Error adding dictionary entry:'' ''Failed to add dictionary entry'' TypeError [] w
         | Some u \<Rightarrow>
             (let entry = \<lparr>word = trim (newWord (app w)),
                           replacement = trim (newReplacement (app w))\<rparr>
              in (case dictionary_entries_create env entry (user_id u) of
                    Inl e \<Rightarrow>
                      report ''Error adding dictionary entry:'' ''Failed to add dictionary entry'' e
                        [DictionaryEntriesCreate entry (user_id u)] w
                  | Inr _ \<Rightarrow>
                      w\<lparr>app := (app w)\<lparr>dictionary := dictionary (app w) @ [entry],
                                          newWord := [], newReplacement := []\<rparr>,
                        calls := calls w @ [DictionaryEntriesCreate entry (user_id u)],
                        toasts := toasts w @ [ToastSuccess ''Dictionary entry added!'']\<rparr>))))"

text \<open>\<^verbatim>\<open>addDictionaryEntry\<close> in \<^verbatim>\<open>src/unnamed/part_000\<close> (lines 207 to 220).\<close>

definition addDictionaryEntry_part_000 :: "DictionaryWord env \<Rightarrow> DictionaryWord world \<Rightarrow> DictionaryWord world" where
  "addDictionaryEntry_part_000 env w =
     (let wd = trim (newWord (app w))
      in if wd = [] then w
         else
           (case user (app w) of
              None \<Rightarrow> report ''Error adding dictionary word:'' ''Failed to add word'' TypeError [] w
            | Some u \<Rightarrow>
                (case dictionary_entries_create env \<lparr>word = wd\<rparr> (user_id u) of
                   Inl e \<Rightarrow>
                     report ''Error adding dictionary word:'' ''Failed to add word'' e
                       [DictionaryEntriesCreate \<lparr>word = wd\<rparr> (user_id u)] w
                 | Inr _ \<Rightarrow>
                     w\<lparr>app := (app w)\<lparr>dictionary := dictionary (app w) @ [\<lparr>word = wd\<rparr>],
                                         newWord := []\<rparr>,
                       calls := calls w @ [DictionaryEntriesCreate \<lparr>word = wd\<rparr> (user_id u)],
                       toasts := toasts w @ [ToastSuccess ''Word added!'']\<rparr>)))"

text \<open>
  \<^verbatim>\<open>deleteDictionaryEntry\<close> (\<^verbatim>\<open>src/src/App.tsx\<close>, lines 233 to 242;
  \<^verbatim>\<open>src/unnamed/part_000\<close>, lines 222 to 231). The two versions differ in their messages
  only, which are the first three arguments of \<open>delete_entry\<close>.
\<close>

definition delete_entry ::
  "string \<Rightarrow> string \<Rightarrow> string \<Rightarrow> ('x DictionaryWord_scheme) env \<Rightarrow> string \<Rightarrow>
   ('x DictionaryWord_scheme) world \<Rightarrow> ('x DictionaryWord_scheme) world" where
  "delete_entry done_message log_message toast_message env wd w =
     (case dictionary_entries_delete env wd of
        Inl e \<Rightarrow> report log_message toast_message e [DictionaryEntriesDelete wd] w
      | Inr _ \<Rightarrow>
          w\<lparr>app := (app w)\<lparr>dictionary := filter (\<lambda>entry. word entry \<noteq> wd) (dictionary (app w))\<rparr>,
            calls := calls w @ [DictionaryEntriesDelete wd],
            toasts := toasts w @ [ToastSuccess done_message]\<rparr>)"

definition deleteDictionaryEntry ::
  "DictionaryEntry env \<Rightarrow> string \<Rightarrow> DictionaryEntry world \<Rightarrow> DictionaryEntry world" where
  "deleteDictionaryEntry =
     delete_entry ''Dictionary entry deleted!'' ''Error deleting dictionary entry:''
       ''Failed to delete dictionary entry''"

definition deleteDictionaryEntry_part_000 ::
  "DictionaryWord env \<Rightarrow> string \<Rightarrow> DictionaryWord world \<Rightarrow> DictionaryWord world" where
  "deleteDictionaryEntry_part_000 =
     delete_entry ''Word deleted!'' ''Error deleting dictionary word:'' ''Failed to delete word''"

text \<open>\<^verbatim>\<open>deleteNote\<close>, the same in both versions.\<close>

definition deleteNote :: "'e env \<Rightarrow> string \<Rightarrow> 'e world \<Rightarrow> 'e world" where
  "deleteNote env i w =
     (case voice_notes_delete env i of
        Inl e \<Rightarrow> report ''Error deleting note:'' ''Failed to delete note'' e [VoiceNotesDelete i] w
      | Inr _ \<Rightarrow>
          w\<lparr>app := (app w)\<lparr>voiceNotes := filter (\<lambda>note. note_id note \<noteq> i) (voiceNotes (app w))\<rparr>,
            calls := calls w @ [VoiceNotesDelete i],
            toasts := toasts w @ [ToastSuccess ''Note deleted!'']\<rparr>)"

section \<open>Concrete inputs\<close>

text \<open>
  A signed-in user, an environment in which every call succeeds, and the state of the
  component after sign-in; the theorems below are run on them.
\<close>

definition example_user :: user where
  "example_user = \<lparr>user_id = ''u1'', email = ''u1@example.org''\<rparr>"

definition example_engine :: regexp_engine where
  "example_engine pattern repl s = Inl SyntaxError"

definition example_env :: "'e env" where
  "example_env =
     \<lparr>getUserMedia = Inr (),
      readAsDataURL = (\<lambda>b. Some ''data:audio/webm;base64,AQID''),
      transcribeAudio = (\<lambda>audio language. Inr ''im gonna go''),
      generateText = (\<lambda>prompt. Inr ''I am going to go.''),
      voice_notes_create = (\<lambda>note uid. Inr ()),
      voice_notes_delete = (\<lambda>i. Inr ()),
      dictionary_entries_create = (\<lambda>entry uid. Inr ()),
      dictionary_entries_delete = (\<lambda>wd. Inr ()),
      regexp_ext = example_engine\<rparr>"

definition signed_in :: "'e world" where
  "signed_in = initial_world\<lparr>app := initial_state\<lparr>user := Some example_user\<rparr>\<rparr>"

section \<open>What a run has called\<close>

text \<open>
  The calls of the pipeline by kind, in the order of the pipeline; whether a call
  resolved in the environment; and the calls a handler has added to the trace.
\<close>

datatype call_kind = KGetUserMedia | KEncode | KTranscribe | KGenerate | KStoreWrite

fun kind_of :: "'e call \<Rightarrow> call_kind" where
  "kind_of GetUserMedia = KGetUserMedia"
| "kind_of (ReadAsDataURL b) = KEncode"
| "kind_of (TranscribeAudio a l) = KTranscribe"
| "kind_of (GenerateText p) = KGenerate"
| "kind_of (VoiceNotesCreate n u) = KStoreWrite"
| "kind_of (VoiceNotesDelete i) = KStoreWrite"
| "kind_of (DictionaryEntriesCreate e u) = KStoreWrite"
| "kind_of (DictionaryEntriesDelete wd) = KStoreWrite"

definition pipeline_calls :: "call_kind list" where
  "pipeline_calls = [KEncode, KTranscribe, KGenerate, KStoreWrite]"

definition resolved :: "js_error + 'a \<Rightarrow> bool" where
  "resolved r = (case r of Inl e \<Rightarrow> False | Inr v \<Rightarrow> True)"

fun call_resolved :: "'e env \<Rightarrow> 'e call \<Rightarrow> bool" where
  "call_resolved env GetUserMedia = resolved (getUserMedia env)"
| "call_resolved env (ReadAsDataURL b) = (readAsDataURL env b \<noteq> None)"
| "call_resolved env (TranscribeAudio a l) = resolved (transcribeAudio env a l)"
| "call_resolved env (GenerateText p) = resolved (generateText env p)"
| "call_resolved env (VoiceNotesCreate n u) = resolved (voice_notes_create env n u)"
| "call_resolved env (VoiceNotesDelete i) = resolved (voice_notes_delete env i)"
| "call_resolved env (DictionaryEntriesCreate e u) = resolved (dictionary_entries_create env e u)"
| "call_resolved env (DictionaryEntriesDelete wd) = resolved (dictionary_entries_delete env wd)"

definition store_write_resolved :: "'e env \<Rightarrow> 'e call list \<Rightarrow> bool" where
  "store_write_resolved env cs = list_ex (\<lambda>c. kind_of c = KStoreWrite \<and> call_resolved env c) cs"

definition new_calls :: "'e world \<Rightarrow> 'e world \<Rightarrow> 'e call list" where
  "new_calls w w' = drop (length (calls w)) (calls w')"

text \<open>
  A handler guards the collections when it has changed neither \<^verbatim>\<open>voiceNotes\<close> nor
  \<^verbatim>\<open>dictionary\<close>, or one of its calls to the store has resolved.
\<close>

definition collections_guarded :: "'e env \<Rightarrow> 'e world \<Rightarrow> 'e world \<Rightarrow> bool" where
  "collections_guarded env w w' =
     (store_write_resolved env (new_calls w w')
      \<or> (voiceNotes (app w') = voiceNotes (app w) \<and> dictionary (app w') = dictionary (app w)))"

text \<open>
  A run of the pipeline, with its outcome \<open>run\<close>, from the state \<open>w\<close> to the state \<open>w'\<close>,
  stops at the first failure: its calls are an initial part of the pipeline's calls, in
  the pipeline's order; each of them but the last has resolved; the transcribing flag is
  cleared; after an error no note is added or shown and no write to the store has
  resolved; after a success all four calls were made and resolved, and the note is at the
  head of the list.
\<close>

definition aborts_at_failure ::
  "'e env \<Rightarrow> (js_error + VoiceNote) \<times> 'e call list \<Rightarrow> 'e world \<Rightarrow> 'e world \<Rightarrow> bool" where
  "aborts_at_failure env run w w' =
     (calls w' = calls w @ snd run
      \<and> map kind_of (snd run) = take (length (snd run)) pipeline_calls
      \<and> list_all (call_resolved env) (butlast (snd run))
      \<and> \<not> isTranscribing (app w')
      \<and> (case fst run of
            Inl e \<Rightarrow>
              voiceNotes (app w') = voiceNotes (app w) \<and> currentNote (app w') = currentNote (app w)
              \<and> \<not> store_write_resolved env (snd run)
          | Inr newNote \<Rightarrow>
              map kind_of (snd run) = pipeline_calls \<and> list_all (call_resolved env) (snd run)
              \<and> voiceNotes (app w') = newNote # voiceNotes (app w)
              \<and> currentNote (app w') = note_text newNote))"

text \<open>An environment in which the transcription service and the store fail.\<close>

definition failing_env :: "'e env" where
  "failing_env =
     example_env
       \<lparr>transcribeAudio := (\<lambda>audio language. Inl (ServiceError ''transcription unavailable'')),
        voice_notes_create := (\<lambda>note uid. Inl (ServiceError ''store unavailable'')),
        voice_notes_delete := (\<lambda>i. Inl (ServiceError ''store unavailable'')),
        dictionary_entries_create := (\<lambda>entry uid. Inl (ServiceError ''store unavailable'')),
        dictionary_entries_delete := (\<lambda>wd. Inl (ServiceError ''store unavailable''))\<rparr>"

text \<open>
  The chunks a recorder has buffered after a sequence of slices, and the state after
  the recorder has delivered them.
\<close>

fun buffered :: "blob list \<Rightarrow> blob list \<Rightarrow> blob list" where
  "buffered cs [] = cs"
| "buffered cs (data # slices) = buffered (ondataavailable cs data) slices"

fun deliver :: "blob list \<Rightarrow> 'e world \<Rightarrow> 'e world" where
  "deliver [] w = w"
| "deliver (data # slices) w = deliver slices (dataavailable data w)"

text \<open>The dictionary of the specification's scenarios, and a state that holds a dictionary.\<close>

definition gonna_wanna :: "DictionaryEntry list" where
  "gonna_wanna = [\<lparr>word = ''gonna'', replacement = ''going to''\<rparr>,
                  \<lparr>word = ''wanna'', replacement = ''want to''\<rparr>]"

definition with_dictionary :: "'e list \<Rightarrow> 'e world" where
  "with_dictionary d = signed_in\<lparr>app := (app signed_in)\<lparr>dictionary := d\<rparr>\<rparr>"

section \<open>The substitution as the specification words it\<close>

text \<open>
  The specification describes the substitution by words: every whole-word,
  case-insensitive occurrence of the key is replaced. \<open>replace_words\<close> follows these
  words, on the maximal runs of word characters of the text (\<open>word_runs\<close>): a run that is
  the key up to case (\<open>ci_eq\<close>) becomes the replacement, everything else is kept. It is
  the reference the source's pattern is compared with (lemma \<open>replace_entry_plain\<close>).

  A word character is one of the ASCII characters \<^verbatim>\<open>A\<close> to \<^verbatim>\<open>Z\<close>, \<^verbatim>\<open>a\<close> to \<^verbatim>\<open>z\<close>,
  \<^verbatim>\<open>0\<close> to \<^verbatim>\<open>9\<close> and the underscore, as for \<^verbatim>\<open>\b\<close>; every other character, a letter
  with an accent included, is none, and ends a word. A word of a text is a maximal run
  of word characters of it.
\<close>

definition ci_eq :: "string \<Rightarrow> string \<Rightarrow> bool" where
  "ci_eq a b = (map canonicalize a = map canonicalize b)"

definition plain_word :: "string \<Rightarrow> bool" where
  "plain_word k = (k \<noteq> [] \<and> list_all is_word_char k)"

function word_runs :: "string \<Rightarrow> string list" where
  "word_runs [] = []"
| "word_runs (c # cs) =
     (if is_word_char c
      then (c # takeWhile is_word_char cs) # word_runs (dropWhile is_word_char cs)
      else word_runs cs)"
  by pat_completeness auto
termination
  by (relation "measure length") (auto simp: less_Suc_eq_le length_dropWhile_le)

function replace_words :: "string \<Rightarrow> string \<Rightarrow> string \<Rightarrow> string" where
  "replace_words k r [] = []"
| "replace_words k r (c # cs) =
     (if is_word_char c
      then (if ci_eq (c # takeWhile is_word_char cs) k then r else c # takeWhile is_word_char cs)
           @ replace_words k r (dropWhile is_word_char cs)
      else c # replace_words k r cs)"
  by pat_completeness auto
termination
  by (relation "measure (\<lambda>(k, r, s). length s)") (auto simp: less_Suc_eq_le length_dropWhile_le)

definition replace_all_words :: "DictionaryEntry list \<Rightarrow> string \<Rightarrow> string" where
  "replace_all_words d t = fold (\<lambda>e. replace_words (word e) (replacement e)) d t"

text \<open>
  The position after \<open>pre\<close> is inside or at the end of a word; the text \<open>s\<close> does not
  start with a word character; no word of the text \<open>t\<close> is the key \<open>k\<close> up to case.
\<close>

definition after_word :: "string \<Rightarrow> bool" where
  "after_word pre = (pre \<noteq> [] \<and> is_word_char (last pre))"

definition starts_nonword :: "string \<Rightarrow> bool" where
  "starts_nonword s = (s = [] \<or> \<not> is_word_char (hd s))"

definition avoids :: "string \<Rightarrow> string \<Rightarrow> bool" where
  "avoids k t = list_all (\<lambda>w. \<not> ci_eq w k) (word_runs t)"

text \<open>
  Dictionaries: every key is a non-empty string of the ASCII characters
  \<^verbatim>\<open>[A-Za-z0-9_]\<close>; no replacement contains a dollar sign; no maximal run of the
  characters \<^verbatim>\<open>[A-Za-z0-9_]\<close> in a replacement is a key up to case; the keys are pairwise
  different up to case.
\<close>

definition plain_keys :: "DictionaryEntry list \<Rightarrow> bool" where
  "plain_keys d = list_all (\<lambda>e. plain_word (word e)) d"

definition literal_replacements :: "DictionaryEntry list \<Rightarrow> bool" where
  "literal_replacements d = list_all (\<lambda>e. CHR ''$'' \<notin> set (replacement e)) d"

definition vocabulary_disjoint :: "DictionaryEntry list \<Rightarrow> bool" where
  "vocabulary_disjoint d =
     list_all (\<lambda>e. list_all (\<lambda>e'. avoids (word e') (replacement e)) d) d"

definition keys_differ :: "DictionaryEntry list \<Rightarrow> bool" where
  "keys_differ d = distinct (map (\<lambda>e. map canonicalize (word e)) d)"


text \<open>Two more dictionaries the theorems are run on.\<close>

definition research_and :: "DictionaryEntry list" where
  "research_and = [\<lparr>word = ''R & D'', replacement = ''research''\<rparr>,
                   \<lparr>word = ''and'', replacement = ''&''\<rparr>]"

definition meter_muller :: "DictionaryEntry list" where
  "meter_muller = [\<lparr>word = ''m'', replacement = ''meter''\<rparr>,
                   \<lparr>word = ''Muller'', replacement = ''M'' @ [CHR 0xFC] @ ''ller''\<rparr>]"

definition gonna_to :: "DictionaryEntry list" where
  "gonna_to = [\<lparr>word = ''gonna'', replacement = ''going to''\<rparr>,
               \<lparr>word = ''to'', replacement = ''2''\<rparr>]"

section \<open>Lemmas\<close>

subsection \<open>The pipeline and the stores\<close>

lemma convert_resolved: "convert_to_base64 env b = Inr a \<Longrightarrow> readAsDataURL env b \<noteq> None"
  by (auto simp: convert_to_base64_def split: option.splits)

lemma finish_recording_Inl:
  "finish_recording (Inl e, cs) w =
     w\<lparr>app := (app w)\<lparr>isTranscribing := False\<rparr>, calls := calls w @ cs,
       console := console w @ [(''Error processing recording:'', e)],
       toasts := toasts w @ [ToastError ''Failed to process recording'']\<rparr>"
  by (simp add: finish_recording_def)

lemma finish_recording_Inr:
  "finish_recording (Inr n, cs) w =
     w\<lparr>app := (app w)\<lparr>currentNote := note_text n, voiceNotes := n # voiceNotes (app w),
                         isTranscribing := False\<rparr>,
       calls := calls w @ cs,
       toasts := toasts w @ [ToastSuccess ''Transcription completed!'']\<rparr>"
  by (simp add: finish_recording_def)

lemmas finish_recording_simps = finish_recording_Inl finish_recording_Inr

lemma processRecording_aborts:
  "aborts_at_failure env (processRecording_try env dict usr ac dur t_id t_ts) w
     (processRecording env dict usr ac dur t_id t_ts w)"
  unfolding processRecording_def processRecording_try_def
  by (simp add: aborts_at_failure_def pipeline_calls_def store_write_resolved_def resolved_def
      Let_def convert_resolved finish_recording_simps split: sum.split option.split)

lemma processRecording_part_000_aborts:
  "aborts_at_failure env (processRecording_part_000_try env dict usr ac dur t_id t_ts) w
     (processRecording_part_000 env dict usr ac dur t_id t_ts w)"
  unfolding processRecording_part_000_def processRecording_part_000_try_def
  by (simp add: aborts_at_failure_def pipeline_calls_def store_write_resolved_def resolved_def
      Let_def convert_resolved finish_recording_simps split: sum.split option.split)

lemma processRecording_guarded:
  "collections_guarded env w (processRecording env dict usr ac dur t_id t_ts w)"
  unfolding processRecording_def processRecording_try_def
  by (simp add: collections_guarded_def new_calls_def store_write_resolved_def resolved_def
      Let_def finish_recording_simps split: sum.split option.split)

lemma processRecording_part_000_guarded:
  "collections_guarded env w (processRecording_part_000 env dict usr ac dur t_id t_ts w)"
  unfolding processRecording_part_000_def processRecording_part_000_try_def
  by (simp add: collections_guarded_def new_calls_def store_write_resolved_def resolved_def
      Let_def finish_recording_simps split: sum.split option.split)

lemma addDictionaryEntry_guarded: "collections_guarded env w (addDictionaryEntry env w)"
  by (simp add: collections_guarded_def new_calls_def store_write_resolved_def resolved_def
      addDictionaryEntry_def report_def Let_def split: sum.split option.split)

lemma addDictionaryEntry_part_000_guarded:
  "collections_guarded env w (addDictionaryEntry_part_000 env w)"
  by (simp add: collections_guarded_def new_calls_def store_write_resolved_def resolved_def
      addDictionaryEntry_part_000_def report_def Let_def split: sum.split option.split)

lemma delete_entry_guarded: "collections_guarded env w (delete_entry m1 m2 m3 env wd w)"
  by (simp add: collections_guarded_def new_calls_def store_write_resolved_def resolved_def
      delete_entry_def report_def split: sum.split)

lemma deleteNote_guarded: "collections_guarded env w (deleteNote env i w)"
  by (simp add: collections_guarded_def new_calls_def store_write_resolved_def resolved_def
      deleteNote_def report_def split: sum.split)

lemma ondataavailable_set:
  "set (ondataavailable cs d) = (if d = [] then set cs else insert d (set cs))"
  by (simp add: ondataavailable_def)

lemma buffered_nonempty: "[] \<notin> set cs \<Longrightarrow> [] \<notin> set (buffered cs slices)"
proof (induction slices arbitrary: cs)
  case Nil
  then show ?case by simp
next
  case (Cons d ds)
  have "[] \<notin> set (ondataavailable cs d)"
    using Cons.prems by (simp add: ondataavailable_set)
  from Cons.IH [OF this] show ?case by simp
qed

lemma concat_nonempty: "cs \<noteq> [] \<Longrightarrow> [] \<notin> set cs \<Longrightarrow> concat cs \<noteq> []"
  by (cases cs) auto

lemma deliver_chunks:
  fixes w :: "'e world"
  shows "mediaRecorder (app w) = Some r \<Longrightarrow>
         map_option chunks (mediaRecorder (app (deliver slices w)))
           = Some (buffered (chunks r) slices)"
proof (induction slices arbitrary: w r)
  case Nil
  then show ?case by simp
next
  case (Cons d ds)
  have "mediaRecorder (app (dataavailable d w))
          = Some (r\<lparr>chunks := ondataavailable (chunks r) d\<rparr>)"
    using Cons.prems by (simp add: dataavailable_def)
  from Cons.IH [OF this] show ?case by simp
qed

lemma recorded_chunks:
  fixes w :: "'e world"
  assumes "getUserMedia env = Inr ()"
  shows "map_option chunks (mediaRecorder (app (deliver slices (startRecording env now w))))
           = Some (buffered [] slices)"
proof -
  have "mediaRecorder (app (startRecording env now w))
          = Some \<lparr>rec_state = Recording, chunks = [],
                  onstop_recordingStart = recordingStart (app w),
                  onstop_dictionary = dictionary (app w), onstop_user = user (app w)\<rparr>"
    using assms by (simp add: startRecording_def)
  from deliver_chunks [OF this] show ?thesis by simp
qed

lemma try_stops_at_check:
  "verify_audio_data ac = Inl e \<Longrightarrow>
   processRecording_try env dict usr ac dur t_id t_ts = (Inl e, [])"
  "verify_audio_data ac = Inl e \<Longrightarrow>
   processRecording_part_000_try env' dict' usr ac dur t_id t_ts = (Inl e, [])"
  by (simp_all add: processRecording_try_def processRecording_part_000_try_def)

lemma try_stops_at_encoding:
  "verify_audio_data ac = Inr b \<Longrightarrow> convert_to_base64 env b = Inl e \<Longrightarrow>
   processRecording_try env dict usr ac dur t_id t_ts = (Inl e, [ReadAsDataURL b])"
  "verify_audio_data ac = Inr b \<Longrightarrow> convert_to_base64 env' b = Inl e \<Longrightarrow>
   processRecording_part_000_try env' dict' usr ac dur t_id t_ts = (Inl e, [ReadAsDataURL b])"
  by (simp_all add: processRecording_try_def processRecording_part_000_try_def)

lemma try_stops_at_substitution:
  "verify_audio_data ac = Inr b \<Longrightarrow> convert_to_base64 env b = Inr a \<Longrightarrow>
   transcribeAudio env a ''en'' = Inr t \<Longrightarrow> apply_dictionary (regexp_ext env) dict t = Inl e \<Longrightarrow>
   processRecording_try env dict usr ac dur t_id t_ts
     = (Inl e, [ReadAsDataURL b, TranscribeAudio a ''en''])"
  by (simp add: processRecording_try_def)

lemma try_needs_user:
  "fst (processRecording_try env dict None ac dur t_id t_ts) \<noteq> Inr n"
  "fst (processRecording_part_000_try env' dict' None ac dur t_id t_ts) \<noteq> Inr n"
  by (simp_all add: processRecording_try_def processRecording_part_000_try_def Let_def
      split: sum.split option.split)

lemma filter_removes_one:
  assumes "distinct (map f xs)" and "k \<in> set (map f xs)"
  shows "\<exists>ys x zs. xs = ys @ x # zs \<and> f x = k \<and> filter (\<lambda>e. f e \<noteq> k) xs = ys @ zs
           \<and> k \<notin> set (map f (ys @ zs))"
proof -
  from assms(2) obtain ys x zs where d: "xs = ys @ x # zs" "f x = k"
    by (auto simp: in_set_conv_decomp map_eq_append_conv)
  from assms(1) have "k \<notin> f ` set ys" "k \<notin> f ` set zs"
    unfolding d(1) d(2)[symmetric] by auto
  then have n: "\<forall>e\<in>set ys. f e \<noteq> k" "\<forall>e\<in>set zs. f e \<noteq> k"
    by blast+
  then have "filter (\<lambda>e. f e \<noteq> k) (ys @ x # zs) = ys @ zs"
    using d(2) by (simp add: filter_id_conv)
  with d n show ?thesis
    by (intro exI[of _ ys] exI[of _ x] exI[of _ zs]) auto
qed

subsection \<open>The pattern of a key of word characters\<close>

lemma canonicalize_word_char:
  assumes "canonicalize c = canonicalize k" and "is_word_char k"
  shows "is_word_char c"
proof -
  have *: "of_char (char_of (n :: nat)) = n" if "n < 256" for n
    using that by simp
  have "(of_char (canonicalize c) :: nat) = of_char (canonicalize k)"
    using assms(1) by simp
  moreover have "(of_char c :: nat) < 256" "(of_char k :: nat) < 256"
    by simp_all
  ultimately show ?thesis
    using assms(2)
    by (auto simp: canonicalize_def is_word_char_def Let_def * split: if_splits)
qed

lemma word_char_not_syntax: "is_word_char c \<Longrightarrow> c \<noteq> CHR ''.'' \<and> c \<notin> set syntax_characters"
  by (auto simp: syntax_characters_def is_word_char_def)

lemma parse_word_plain: "list_all is_word_char k \<Longrightarrow> parse_word k = Some (map Lit k)"
  by (induction k) (simp_all add: word_char_not_syntax)

lemma get_substitution_literal:
  "CHR ''$'' \<notin> set r \<Longrightarrow> get_substitution pre m post r = r"
proof (induction r)
  case Nil
  then show ?case by simp
next
  case (Cons c r)
  then show ?case by (cases r) auto
qed

lemma ci_eq_length: "ci_eq a b \<Longrightarrow> length a = length b"
  unfolding ci_eq_def by (rule map_eq_imp_length_eq)

lemma ci_eq_word_chars: "ci_eq m k \<Longrightarrow> list_all is_word_char k \<Longrightarrow> list_all is_word_char m"
  unfolding ci_eq_def
proof (induction m arbitrary: k)
  case Nil
  then show ?case by simp
next
  case (Cons c m)
  then obtain d k' where k: "k = d # k'" by (cases k) auto
  with Cons.prems have "canonicalize c = canonicalize d" "is_word_char d"
      "map canonicalize m = map canonicalize k'" "list_all is_word_char k'"
    by simp_all
  with Cons.IH [of k'] show ?case
    by (simp add: canonicalize_word_char)
qed

lemma match_items_Lit:
  "match_items (map Lit k) s =
     (if length k \<le> length s \<and> ci_eq (take (length k) s) k
      then Some (take (length k) s, drop (length k) s) else None)"
proof (induction k arbitrary: s)
  case Nil
  then show ?case by (simp add: ci_eq_def)
next
  case (Cons d k)
  show ?case
  proof (cases s)
    case Nil
    then show ?thesis by simp
  next
    case (Cons c cs)
    with Cons.IH [of cs] show ?thesis
      by (simp add: ci_eq_def)
  qed
qed

lemma takeWhile_run:
  assumes "list_all P m" and "r = [] \<or> \<not> P (hd r)"
  shows "takeWhile P (m @ r) = m" and "dropWhile P (m @ r) = r"
proof -
  have "takeWhile P r = []" "dropWhile P r = r"
    using assms(2) by (cases r; simp)+
  with assms(1) show "takeWhile P (m @ r) = m" "dropWhile P (m @ r) = r"
    by (simp_all add: takeWhile_append dropWhile_append list_all_iff)
qed

lemma dropWhile_stops: "dropWhile P s = [] \<or> \<not> P (hd (dropWhile P s))"
  by (metis hd_dropWhile)

lemma match_at_plain:
  assumes "plain_word k"
  shows "match_at (map Lit k) pre suf =
     (if \<not> after_word pre \<and> suf \<noteq> [] \<and> is_word_char (hd suf)
          \<and> ci_eq (takeWhile is_word_char suf) k
      then Some (takeWhile is_word_char suf, dropWhile is_word_char suf) else None)"
proof -
  let ?W = is_word_char
  let ?n = "length k"
  from assms have k: "k \<noteq> []" "list_all ?W k" by (simp_all add: plain_word_def)
  have run: "take ?n suf = takeWhile ?W suf \<and> drop ?n suf = dropWhile ?W suf"
    if "ci_eq (takeWhile ?W suf) k"
    using ci_eq_length [OF that] takeWhile_eq_take [of ?W suf] dropWhile_eq_drop [of ?W suf]
    by simp
  have fits: "?n \<le> length suf" if "ci_eq (takeWhile ?W suf) k"
    using ci_eq_length [OF that] length_takeWhile_le [of ?W suf] by simp
  have conv: "takeWhile ?W suf = take ?n suf \<and> dropWhile ?W suf = drop ?n suf"
    if "ci_eq (take ?n suf) k" "drop ?n suf = [] \<or> \<not> ?W (hd (drop ?n suf))"
  proof -
    have "list_all ?W (take ?n suf)"
      using that(1) k(2) by (rule ci_eq_word_chars)
    from takeWhile_run [OF this that(2)] show ?thesis by simp
  qed
  have first: "suf \<noteq> [] \<and> ?W (hd suf)" if "?n \<le> length suf" "ci_eq (take ?n suf) k"
  proof -
    have "list_all ?W (take ?n suf)"
      using that(2) k(2) by (rule ci_eq_word_chars)
    moreover have "suf \<noteq> []" using that(1) k(1) by auto
    moreover have "take ?n suf = hd suf # take (?n - 1) (tl suf)"
      using \<open>suf \<noteq> []\<close> k(1) by (cases suf; cases k) simp_all
    ultimately show ?thesis by simp
  qed
  have last_word: "after_word (pre @ take ?n suf)" if "?n \<le> length suf" "ci_eq (take ?n suf) k"
  proof -
    have "list_all ?W (take ?n suf)"
      using that(2) k(2) by (rule ci_eq_word_chars)
    moreover have "take ?n suf \<noteq> []" using that(1) k(1) by auto
    ultimately show ?thesis
      by (simp add: after_word_def list_all_iff)
  qed
  show ?thesis
  proof (cases "?n \<le> length suf \<and> ci_eq (take ?n suf) k")
    case False
    then have "match_items (map Lit k) suf = None"
      by (simp add: match_items_Lit)
    moreover have "\<not> ci_eq (takeWhile ?W suf) k"
      using False run fits by metis
    ultimately show ?thesis
      by (simp add: match_at_def)
  next
    case True
    then have mi: "match_items (map Lit k) suf = Some (take ?n suf, drop ?n suf)"
      by (simp add: match_items_Lit)
    from True first have f: "suf \<noteq> []" "?W (hd suf)" by simp_all
    from True last_word have l: "after_word (pre @ take ?n suf)" by simp
    show ?thesis
    proof (cases "drop ?n suf = [] \<or> \<not> ?W (hd (drop ?n suf))")
      case stop: True
      with True conv have c: "takeWhile ?W suf = take ?n suf" "dropWhile ?W suf = drop ?n suf"
        by simp_all
      show ?thesis
        using mi f l stop True unfolding c
        by (auto simp: match_at_def is_word_boundary_def after_word_def)
    next
      case go: False
      have "\<not> ci_eq (takeWhile ?W suf) k"
      proof
        assume "ci_eq (takeWhile ?W suf) k"
        from run [OF this] have "drop ?n suf = dropWhile ?W suf" by simp
        with dropWhile_stops [of ?W suf] go show False by simp
      qed
      then show ?thesis
        using mi f l go
        by (auto simp: match_at_def is_word_boundary_def after_word_def)
    qed
  qed
qed

lemma after_word_snoc: "after_word (pre @ [c]) = is_word_char c"
  by (simp add: after_word_def)


lemma after_word_run:
  assumes "is_word_char c"
  shows "after_word (pre @ c # takeWhile is_word_char cs)"
proof -
  have "last (c # takeWhile is_word_char cs) \<in> set (c # takeWhile is_word_char cs)"
    by (rule last_in_set) simp
  then have "is_word_char (last (c # takeWhile is_word_char cs))"
    using assms by (auto dest: set_takeWhileD)
  then show ?thesis
    by (simp add: after_word_def)
qed

lemma takeWhile_dropWhile_same: "takeWhile P (dropWhile P xs) = []"
  by (induction xs) simp_all

lemma replace_from_plain:
  assumes "plain_word k" and "CHR ''$'' \<notin> set r"
  shows "replace_from (map Lit k) r pre suf =
     (if after_word pre
      then takeWhile is_word_char suf @ replace_words k r (dropWhile is_word_char suf)
      else replace_words k r suf)"
proof (induction "length suf" arbitrary: pre suf rule: less_induct)
  case less
  let ?W = is_word_char
  note m = match_at_plain [OF assms(1)]
  show ?case
  proof (cases suf)
    case Nil
    then show ?thesis
      by (subst replace_from.simps) (simp add: m)
  next
    case (Cons c cs)
    show ?thesis
    proof (cases "\<not> after_word pre \<and> ?W c \<and> ci_eq (c # takeWhile ?W cs) k")
      case True
      have "length (dropWhile ?W cs) < length suf"
        using Cons length_dropWhile_le [of ?W cs] by simp
      from less [OF this, of "pre @ c # takeWhile ?W cs"] True
      have "replace_from (map Lit k) r (pre @ c # takeWhile ?W cs) (dropWhile ?W cs)
              = replace_words k r (dropWhile ?W cs)"
        by (simp add: after_word_run takeWhile_dropWhile_same)
      with True Cons show ?thesis
        by (subst replace_from.simps)
           (simp add: m get_substitution_literal [OF assms(2)])
    next
      case False
      have "length cs < length suf" using Cons by simp
      from less [OF this, of "pre @ [c]"]
      have "replace_from (map Lit k) r (pre @ [c]) cs =
              (if ?W c then takeWhile ?W cs @ replace_words k r (dropWhile ?W cs)
               else replace_words k r cs)"
        by (simp add: after_word_snoc)
      with False Cons show ?thesis
        by (subst replace_from.simps) (auto simp: m)
    qed
  qed
qed

lemma replace_entry_plain:
  assumes "plain_word (word e)" and "CHR ''$'' \<notin> set (replacement e)"
  shows "replace_entry ext e t = Inr (replace_words (word e) (replacement e) t)"
  using assms replace_from_plain [OF assms, of "[]" t]
  by (simp add: replace_entry_def parse_word_plain plain_word_def after_word_def)

subsection \<open>Replacing words\<close>

lemma starts_nonword_dropWhile: "starts_nonword (dropWhile is_word_char s)"
  unfolding starts_nonword_def by (rule dropWhile_stops)

lemma starts_nonword_replace_words:
  "starts_nonword s \<Longrightarrow> starts_nonword (replace_words k r s)"
  by (cases s) (simp_all add: starts_nonword_def)

lemma run_append:
  assumes "starts_nonword ys"
  shows "takeWhile is_word_char (cs @ ys) = takeWhile is_word_char cs"
    and "dropWhile is_word_char (cs @ ys) = dropWhile is_word_char cs @ ys"
proof -
  have "takeWhile is_word_char ys = []" "dropWhile is_word_char ys = ys"
    using assms by (cases ys; simp add: starts_nonword_def)+
  then show "takeWhile is_word_char (cs @ ys) = takeWhile is_word_char cs"
    "dropWhile is_word_char (cs @ ys) = dropWhile is_word_char cs @ ys"
    by (induction cs) simp_all
qed

lemma word_runs_append:
  "starts_nonword ys \<Longrightarrow> word_runs (xs @ ys) = word_runs xs @ word_runs ys"
  by (induction xs rule: word_runs.induct) (simp_all add: run_append)

lemma replace_words_append:
  "starts_nonword ys \<Longrightarrow>
   replace_words k r (xs @ ys) = replace_words k r xs @ replace_words k r ys"
  by (induction xs rule: word_runs.induct) (simp_all add: run_append)

lemma dropWhile_takeWhile_same: "dropWhile P (takeWhile P xs) = []"
  by (auto simp: dropWhile_eq_Nil_conv dest: set_takeWhileD)

lemma word_runs_run:
  "is_word_char c \<Longrightarrow> word_runs (c # takeWhile is_word_char cs) = [c # takeWhile is_word_char cs]"
  by (simp add: dropWhile_takeWhile_same)

lemma replace_words_run:
  "is_word_char c \<Longrightarrow>
   replace_words k r (c # takeWhile is_word_char cs) =
     (if ci_eq (c # takeWhile is_word_char cs) k then r else c # takeWhile is_word_char cs)"
  by (simp add: dropWhile_takeWhile_same)

lemma replace_words_avoided: "avoids k t \<Longrightarrow> replace_words k r t = t"
  by (induction t rule: word_runs.induct) (auto simp: avoids_def split: if_splits)

lemma replace_words_unfold:
  "is_word_char c \<Longrightarrow>
   replace_words k r (c # cs) =
     replace_words k r (c # takeWhile is_word_char cs) @ replace_words k r (dropWhile is_word_char cs)"
  by (simp add: dropWhile_takeWhile_same)

lemma word_runs_replace_words:
  "set (word_runs (replace_words k r t))
     \<subseteq> {w \<in> set (word_runs t). \<not> ci_eq w k} \<union> set (word_runs r)"
proof (induction t rule: word_runs.induct)
  case 1
  then show ?case by simp
next
  case (2 c cs)
  show ?case
  proof (cases "is_word_char c")
    case False
    with 2 show ?thesis by auto
  next
    case True
    let ?w = "c # takeWhile is_word_char cs"
    let ?rest = "dropWhile is_word_char cs"
    have s: "starts_nonword (replace_words k r ?rest)"
      by (rule starts_nonword_replace_words) (rule starts_nonword_dropWhile)
    have "word_runs (replace_words k r (c # cs))
            = word_runs (if ci_eq ?w k then r else ?w) @ word_runs (replace_words k r ?rest)"
      using True by (simp add: word_runs_append [OF s])
    moreover have "word_runs ?w = [?w]"
      using True by (rule word_runs_run)
    moreover have "word_runs (c # cs) = ?w # word_runs ?rest"
      using True by simp
    ultimately show ?thesis
      using 2(1) [OF True] by auto
  qed
qed

lemma avoids_replace_words:
  assumes "avoids k r"
  shows "avoids k (replace_words k r t)"
  using assms word_runs_replace_words [of k r t]
  by (auto simp: avoids_def list_all_iff)

lemma avoids_kept:
  assumes "avoids k t" and "avoids k r'"
  shows "avoids k (replace_words k' r' t)"
  using assms word_runs_replace_words [of k' r' t]
  by (auto simp: avoids_def list_all_iff)

lemma apply_dictionary_plain:
  "plain_keys d \<Longrightarrow> literal_replacements d \<Longrightarrow>
   apply_dictionary ext d t = Inr (replace_all_words d t)"
  by (induction d arbitrary: t)
     (simp_all add: plain_keys_def literal_replacements_def replace_all_words_def replace_entry_plain)

lemma replace_all_words_kept:
  "avoids k t \<Longrightarrow> \<forall>e\<in>set d. avoids k (replacement e) \<Longrightarrow> avoids k (replace_all_words d t)"
  unfolding replace_all_words_def
  by (induction d arbitrary: t) (simp_all add: avoids_kept)

lemma replace_all_words_removes:
  "e \<in> set d \<Longrightarrow> \<forall>e'\<in>set d. avoids (word e) (replacement e') \<Longrightarrow>
   avoids (word e) (replace_all_words d t)"
proof (induction d arbitrary: t)
  case Nil
  then show ?case by simp
next
  case (Cons a d)
  let ?t = "replace_words (word a) (replacement a) t"
  have step: "replace_all_words (a # d) t = replace_all_words d ?t"
    by (simp add: replace_all_words_def)
  show ?case
  proof (cases "e = a")
    case True
    with Cons.prems have "avoids (word e) ?t"
      by (simp add: avoids_replace_words)
    with Cons.prems show ?thesis
      unfolding step by (intro replace_all_words_kept) simp_all
  next
    case False
    with Cons.prems have "e \<in> set d" "\<forall>e'\<in>set d. avoids (word e) (replacement e')"
      by simp_all
    from Cons.IH [OF this] show ?thesis
      unfolding step .
  qed
qed

lemma replace_all_words_avoided:
  "\<forall>e\<in>set d. avoids (word e) s \<Longrightarrow> replace_all_words d s = s"
  unfolding replace_all_words_def
  by (induction d) (simp_all add: replace_words_avoided)

lemma replace_all_words_idem:
  assumes "vocabulary_disjoint d"
  shows "replace_all_words d (replace_all_words d t) = replace_all_words d t"
proof (rule replace_all_words_avoided, rule ballI)
  fix e assume "e \<in> set d"
  moreover from assms this have "\<forall>e'\<in>set d. avoids (word e) (replacement e')"
    by (simp add: vocabulary_disjoint_def list_all_iff)
  ultimately show "avoids (word e) (replace_all_words d t)"
    by (rule replace_all_words_removes)
qed

lemma replace_words_commute:
  assumes "\<not> ci_eq k1 k2" and "avoids k2 r1" and "avoids k1 r2"
  shows "replace_words k1 r1 (replace_words k2 r2 t)
       = replace_words k2 r2 (replace_words k1 r1 t)"
proof (induction t rule: word_runs.induct)
  case 1
  then show ?case by simp
next
  case (2 c cs)
  show ?case
  proof (cases "is_word_char c")
    case False
    with 2 show ?thesis by simp
  next
    case True
    let ?w = "c # takeWhile is_word_char cs"
    let ?rest = "dropWhile is_word_char cs"
    have s: "starts_nonword (replace_words k r ?rest)" for k r
      by (rule starts_nonword_replace_words) (rule starts_nonword_dropWhile)
    have not_both: "\<not> (ci_eq ?w k1 \<and> ci_eq ?w k2)"
      using assms(1) by (auto simp: ci_eq_def)
    have one: "replace_words k r (c # cs)
                 = (if ci_eq ?w k then r else ?w) @ replace_words k r ?rest" for k r
      using True by simp
    have left: "replace_words k1 r1 (replace_words k2 r2 (c # cs))
        = (if ci_eq ?w k2 then r2 else if ci_eq ?w k1 then r1 else ?w)
          @ replace_words k1 r1 (replace_words k2 r2 ?rest)"
      using True
      by (simp add: one [of k2] replace_words_append [OF s]
          replace_words_avoided [OF assms(3)] replace_words_run del: replace_words.simps)
    have right: "replace_words k2 r2 (replace_words k1 r1 (c # cs))
        = (if ci_eq ?w k1 then r1 else if ci_eq ?w k2 then r2 else ?w)
          @ replace_words k2 r2 (replace_words k1 r1 ?rest)"
      using True
      by (simp add: one [of k1] replace_words_append [OF s]
          replace_words_avoided [OF assms(2)] replace_words_run del: replace_words.simps)
    from left right not_both 2(1) [OF True] show ?thesis
      by auto
  qed
qed

lemma try_reaches_correction:
  "verify_audio_data ac = Inr b \<Longrightarrow> convert_to_base64 env b = Inr a \<Longrightarrow>
   transcribeAudio env a ''en'' = Inr t \<Longrightarrow> apply_dictionary (regexp_ext env) dict t = Inr s \<Longrightarrow>
   take 3 (snd (processRecording_try env dict usr ac dur t_id t_ts))
     = [ReadAsDataURL b, TranscribeAudio a ''en'', GenerateText (prompt_head @ s @ prompt_tail)]"
  by (simp add: processRecording_try_def correction_prompt_def Let_def
      split: sum.split option.split)

subsection \<open>The recorder of a recording\<close>

lemma startRecording_recorder:
  fixes w :: "'e world"
  assumes "getUserMedia env = Inr ()"
  shows "mediaRecorder (app (startRecording env now w))
           = Some \<lparr>rec_state = Recording, chunks = [],
                   onstop_recordingStart = recordingStart (app w),
                   onstop_dictionary = dictionary (app w), onstop_user = user (app w)\<rparr>"
    and "voiceNotes (app (startRecording env now w)) = voiceNotes (app w)"
    and "recordingStart (app (startRecording env now w)) = now"
  using assms by (simp_all add: startRecording_def)

lemma deliver_recorder:
  fixes w :: "'e world"
  shows "mediaRecorder (app w) = Some r \<Longrightarrow>
         mediaRecorder (app (deliver slices w)) = Some (r\<lparr>chunks := buffered (chunks r) slices\<rparr>)
         \<and> voiceNotes (app (deliver slices w)) = voiceNotes (app w)"
proof (induction slices arbitrary: w r)
  case Nil
  then show ?case by simp
next
  case (Cons d ds)
  have "mediaRecorder (app (dataavailable d w))
          = Some (r\<lparr>chunks := ondataavailable (chunks r) d\<rparr>)"
     "voiceNotes (app (dataavailable d w)) = voiceNotes (app w)"
    using Cons.prems by (simp_all add: dataavailable_def)
  from Cons.IH [OF this(1)] this(2) show ?case by simp
qed

lemma stopRecording_recorder:
  fixes w :: "'e world"
  shows "mediaRecorder (app w) = Some r \<Longrightarrow> rec_state r = Recording \<Longrightarrow>
         mediaRecorder (app (stopRecording w)) = Some (r\<lparr>rec_state := Inactive\<rparr>)
         \<and> voiceNotes (app (stopRecording w)) = voiceNotes (app w)"
  by (simp add: stopRecording_def)

lemma stored_duration:
  fixes w :: "DictionaryEntry world"
  assumes "getUserMedia env = Inr ()"
      and "fst (processRecording_try env (dictionary (app w)) (user (app w))
                 (Some (buffered [] slices)) (t_stop - recordingStart (app w)) t_id t_ts) = Inr n"
  shows "voiceNotes (app (onstop env t_stop t_id t_ts
             (stopRecording (deliver slices (startRecording env t_start w)))))
           = n # voiceNotes (app w)
       \<and> duration n = t_stop - recordingStart (app w)"
proof -
  let ?r = "\<lparr>rec_state = Recording, chunks = [],
             onstop_recordingStart = recordingStart (app w),
             onstop_dictionary = dictionary (app w), onstop_user = user (app w)\<rparr>"
  let ?w1 = "startRecording env t_start w"
  let ?w2 = "deliver slices ?w1"
  let ?w3 = "stopRecording ?w2"
  note s = startRecording_recorder [OF assms(1), of t_start w]
  have d: "mediaRecorder (app ?w2) = Some (?r\<lparr>chunks := buffered [] slices\<rparr>)"
      "voiceNotes (app ?w2) = voiceNotes (app w)"
    using deliver_recorder [OF s(1), of slices] s(2) by simp_all
  have p: "mediaRecorder (app ?w3) = Some (?r\<lparr>chunks := buffered [] slices, rec_state := Inactive\<rparr>)"
      "voiceNotes (app ?w3) = voiceNotes (app w)"
    using stopRecording_recorder [OF d(1)] d(2) by simp_all
  obtain cs where run: "processRecording_try env (dictionary (app w)) (user (app w))
                 (Some (buffered [] slices)) (t_stop - recordingStart (app w)) t_id t_ts = (Inr n, cs)"
    using assms(2) by (cases "processRecording_try env (dictionary (app w)) (user (app w))
                 (Some (buffered [] slices)) (t_stop - recordingStart (app w)) t_id t_ts") simp
  have "duration n = t_stop - recordingStart (app w)"
    using run
    by (auto simp: processRecording_try_def Let_def split: sum.splits option.splits)
  moreover have "voiceNotes (app (onstop env t_stop t_id t_ts ?w3)) = n # voiceNotes (app w)"
    using p run by (simp add: onstop_def processRecording_def finish_recording_simps)
  ultimately show ?thesis by simp
qed

section \<open>The claims\<close>

text \<open>
  C1. The substitution step is to replace the whole-word occurrences of an entry's key,
  and nothing else, for every key, keys with pattern characters included. The key is
  put into the pattern as it is, so a \<^verbatim>\<open>.\<close> in it matches any character. With the entry
  \<open>Dr.\<close> \<open>\<mapsto>\<close> \<open>Doctor\<close> the word \<open>dry\<close> of the transcript is replaced, and the \<open>Dr.\<close> before
  \<open>Smith\<close> is not (no word boundary follows its dot); with the entry \<open>e.g\<close> \<open>\<mapsto>\<close>
  \<open>for example\<close> the word \<open>egg\<close>, in which the key does not occur, is replaced.
\<close>

theorem C1_key_is_pattern_source:
  "apply_dictionary ext [\<lparr>word = ''Dr.'', replacement = ''Doctor''\<rparr>] ''Dr. Smith has a dry cough''
     = Inr ''Dr. Smith has a Doctor cough''
   \<and> apply_dictionary ext [\<lparr>word = ''e.g'', replacement = ''for example''\<rparr>] ''an egg''
       = Inr ''an for example''"
  by code_simp

text \<open>
  On keys of word characters the pattern does what the claim says (lemma
  \<open>replace_entry_plain\<close>); the scenario of the specification: \<open>gonna\<close> is not replaced
  inside \<open>gonnas\<close>, and \<open>WANNA\<close> is replaced whatever its case.
\<close>

lemma whole_word_scenario:
  "apply_dictionary ext gonna_wanna ''gonnas WANNA go'' = Inr ''gonnas want to go''"
  by code_simp

text \<open>
  C2. When the list of recorded chunks is empty (or missing), \<^verbatim>\<open>processRecording\<close> throws
  the error \<open>No audio data recorded\<close>, which its \<^verbatim>\<open>catch\<close> block logs, and makes no call:
  no encoding, no transcription, no text generation, no store write. This holds for both
  versions of the component.
\<close>

theorem C2_no_audio_data:
  assumes "audioChunks = None \<or> audioChunks = Some []"
  shows "processRecording_try env dict usr audioChunks dur t_id t_ts
           = (Inl (Error ''No audio data recorded''), [])
       \<and> calls (processRecording env dict usr audioChunks dur t_id t_ts w) = calls w
       \<and> console (processRecording env dict usr audioChunks dur t_id t_ts w)
           = console w @ [(''Error processing recording:'', Error ''No audio data recorded'')]
       \<and> voiceNotes (app (processRecording env dict usr audioChunks dur t_id t_ts w))
           = voiceNotes (app w)
       \<and> processRecording_part_000_try env' dict' usr audioChunks dur t_id t_ts
           = (Inl (Error ''No audio data recorded''), [])
       \<and> calls (processRecording_part_000 env' dict' usr audioChunks dur t_id t_ts w') = calls w'
       \<and> console (processRecording_part_000 env' dict' usr audioChunks dur t_id t_ts w')
           = console w' @ [(''Error processing recording:'', Error ''No audio data recorded'')]
       \<and> voiceNotes (app (processRecording_part_000 env' dict' usr audioChunks dur t_id t_ts w'))
           = voiceNotes (app w')"
  using assms
  by (auto simp: processRecording_def processRecording_try_def processRecording_part_000_def
      processRecording_part_000_try_def verify_audio_data_def finish_recording_def)

theorem C2_no_audio_data_witness:
  "processRecording_try example_env [] (Some example_user) (Some []) 3000 4001 4002
     = (Inl (Error ''No audio data recorded''), [])
   \<and> calls (processRecording example_env [] (Some example_user) (Some []) 3000 4001 4002 signed_in)
       = []
   \<and> calls (processRecording_part_000 example_env [] (Some example_user) (Some []) 3000 4001 4002
              signed_in) = []"
  using C2_no_audio_data [of "Some []" example_env "[]" "Some example_user" 3000 4001 4002
      signed_in example_env "[]" signed_in]
  by (simp add: signed_in_def initial_world_def)

text \<open>
  C3, as stated. Idempotence is claimed for every dictionary whose replacements hold
  no key. The dictionary \<open>R & D\<close> \<open>\<mapsto>\<close> \<open>research\<close>, \<open>and\<close> \<open>\<mapsto>\<close> \<open>&\<close> is one: no word of a
  replacement is a key. Applied to \<open>R and D\<close> it gives \<open>R & D\<close>, in which the first key now
  occurs; applied again it gives \<open>research\<close>.
\<close>

theorem C3_phrase_key_not_idempotent:
  "vocabulary_disjoint research_and
   \<and> apply_dictionary example_engine research_and ''R and D'' = Inr ''R & D''
   \<and> apply_dictionary example_engine research_and ''R & D'' = Inr ''research''"
  by code_simp

text \<open>
  C3, amended. A word character is one of the ASCII characters \<^verbatim>\<open>[A-Za-z0-9_]\<close> (a
  letter with an accent is none), and a word of a text is a maximal run of word
  characters of it. For every dictionary whose keys are non-empty strings of word
  characters, whose replacements contain no dollar sign, and in which no word of a
  replacement is a key when the case of the letters \<^verbatim>\<open>A\<close> to \<^verbatim>\<open>Z\<close> is ignored, the
  substitution succeeds and applying it to its own result changes nothing.
\<close>

theorem C3_idempotent_on_plain_keys:
  assumes "plain_keys d" and "literal_replacements d" and "vocabulary_disjoint d"
  shows "\<exists>s. apply_dictionary ext d t = Inr s \<and> apply_dictionary ext d s = Inr s"
  using assms by (simp add: apply_dictionary_plain replace_all_words_idem)

theorem C3_idempotent_on_plain_keys_witness:
  "apply_dictionary example_engine gonna_wanna ''im gonna go'' = Inr ''im going to go''
   \<and> apply_dictionary example_engine gonna_wanna ''im going to go'' = Inr ''im going to go''"
proof -
  have "plain_keys gonna_wanna" "literal_replacements gonna_wanna" "vocabulary_disjoint gonna_wanna"
    by code_simp+
  from C3_idempotent_on_plain_keys [OF this, of example_engine "''im gonna go''"]
  obtain s where "apply_dictionary example_engine gonna_wanna ''im gonna go'' = Inr s"
    "apply_dictionary example_engine gonna_wanna s = Inr s"
    by blast
  moreover have "apply_dictionary example_engine gonna_wanna ''im gonna go'' = Inr ''im going to go''"
    by code_simp
  ultimately show ?thesis by simp
qed

text \<open>
  C4, as stated. Order-independence is claimed for every dictionary with pairwise
  non-overlapping keys. The keys \<open>gonna\<close> and \<open>to\<close> do not overlap, but the replacement
  \<open>going to\<close> of the first holds the second: on the text \<open>gonna\<close> the entries give
  \<open>going 2\<close> in one order and \<open>going to\<close> in the other.
\<close>

theorem C4_replacement_with_key_depends_on_order:
  "keys_differ gonna_to \<and> mset (rev gonna_to) = mset gonna_to
   \<and> apply_dictionary example_engine gonna_to ''gonna'' = Inr ''going 2''
   \<and> apply_dictionary example_engine (rev gonna_to) ''gonna'' = Inr ''going to''"
proof -
  have "keys_differ gonna_to"
      "apply_dictionary example_engine gonna_to ''gonna'' = Inr ''going 2''"
      "apply_dictionary example_engine (rev gonna_to) ''gonna'' = Inr ''going to''"
    by code_simp+
  then show ?thesis by simp
qed

text \<open>
  C4, amended. A word character is one of the ASCII characters \<^verbatim>\<open>[A-Za-z0-9_]\<close> (a
  letter with an accent is none), and a word of a text is a maximal run of word
  characters of it. For every dictionary whose keys are non-empty strings of word
  characters, pairwise different when the case of the letters \<^verbatim>\<open>A\<close> to \<^verbatim>\<open>Z\<close> is
  ignored, whose replacements contain no dollar sign, and in which no word of a
  replacement is a key when that case is ignored, every permutation of the entries gives
  the same text; and when the pipeline reaches the correction step, its third call is the
  text generation with the prompt that holds this text unchanged, between the fixed head
  and tail of the prompt.
\<close>

theorem C4_order_independent_on_plain_keys:
  assumes "plain_keys d" and "literal_replacements d" and "vocabulary_disjoint d"
      and "keys_differ d" and "mset d' = mset d"
  shows "apply_dictionary ext d' t = apply_dictionary ext d t
       \<and> (\<exists>s. apply_dictionary ext d t = Inr s
             \<and> (verify_audio_data ac = Inr b \<and> convert_to_base64 env b = Inr a
                  \<and> transcribeAudio env a ''en'' = Inr t \<and> regexp_ext env = ext \<longrightarrow>
                take 3 (snd (processRecording_try env d usr ac dur t_id t_ts))
                  = [ReadAsDataURL b, TranscribeAudio a ''en'',
                     GenerateText (prompt_head @ s @ prompt_tail)]))"
proof -
  let ?f = "\<lambda>e. replace_words (word e) (replacement e)"
  have set_eq: "set d' = set d"
    using assms(5) by (rule mset_eq_setD)
  have plain': "plain_keys d'" "literal_replacements d'"
    using assms(1,2) set_eq by (simp_all add: plain_keys_def literal_replacements_def list_all_iff)
  have commute: "?f x \<circ> ?f y = ?f y \<circ> ?f x" if "x \<in> set d" "y \<in> set d" for x y
  proof (cases "x = y")
    case True
    then show ?thesis by simp
  next
    case False
    have "inj_on (\<lambda>e. map canonicalize (word e)) (set d)"
      using assms(4) by (simp add: keys_differ_def distinct_map)
    with that False have "\<not> ci_eq (word x) (word y)"
      by (auto simp: ci_eq_def inj_on_def)
    moreover from assms(3) that have "avoids (word y) (replacement x)" "avoids (word x) (replacement y)"
      by (simp_all add: vocabulary_disjoint_def list_all_iff)
    ultimately show ?thesis
      by (auto simp: fun_eq_iff intro: replace_words_commute)
  qed
  have "replace_all_words d t = replace_all_words d' t"
    unfolding replace_all_words_def
    using fold_multiset_equiv [of d ?f d'] commute assms(5) by simp
  then have "apply_dictionary ext d' t = apply_dictionary ext d t"
    using assms(1,2) plain' by (simp add: apply_dictionary_plain)
  moreover have "apply_dictionary ext d t = Inr (replace_all_words d t)"
    using assms(1,2) by (rule apply_dictionary_plain)
  ultimately show ?thesis
    using try_reaches_correction [of ac b env a t d "replace_all_words d t" usr dur t_id t_ts]
    by auto
qed

theorem C4_order_independent_on_plain_keys_witness:
  "apply_dictionary example_engine (rev gonna_wanna) ''i wanna say im gonna go''
     = Inr ''i want to say im going to go''
   \<and> apply_dictionary example_engine gonna_wanna ''i wanna say im gonna go''
     = Inr ''i want to say im going to go''
   \<and> take 3 (snd (processRecording_try
        (example_env\<lparr>transcribeAudio := (\<lambda>audio language. Inr ''i wanna say im gonna go'')\<rparr>)
        gonna_wanna (Some example_user) (Some [[1, 2, 3]]) 3000 4001 4002))
       = [ReadAsDataURL [1, 2, 3], TranscribeAudio ''AQID'' ''en'',
          GenerateText (prompt_head @ ''i want to say im going to go'' @ prompt_tail)]"
proof -
  let ?env = "example_env\<lparr>transcribeAudio := (\<lambda>audio language. Inr ''i wanna say im gonna go'')\<rparr>
                :: DictionaryEntry env"
  have d: "plain_keys gonna_wanna" "literal_replacements gonna_wanna"
      "vocabulary_disjoint gonna_wanna" "keys_differ gonna_wanna"
    by code_simp+
  have p: "mset (rev gonna_wanna) = mset gonna_wanna"
    by simp
  have run: "verify_audio_data (Some [[1, 2, 3]]) = Inr [1, 2, 3]
      \<and> convert_to_base64 ?env [1, 2, 3] = Inr ''AQID''
      \<and> transcribeAudio ?env ''AQID'' ''en'' = Inr ''i wanna say im gonna go''
      \<and> regexp_ext ?env = example_engine"
    by (simp add: verify_audio_data_def convert_to_base64_def example_env_def)
  have v: "apply_dictionary example_engine gonna_wanna ''i wanna say im gonna go''
             = Inr ''i want to say im going to go''"
    by code_simp
  from C4_order_independent_on_plain_keys [OF d p, of example_engine "''i wanna say im gonna go''"
      "Some [[1, 2, 3]]" "[1, 2, 3]" ?env "''AQID''" "Some example_user" 3000 4001 4002] run v
  show ?thesis
    by simp
qed

text \<open>
  More inputs behind the amended C3 and C4. A replacement with \<^verbatim>\<open>$&\<close> puts the matched
  key back into the text: the substitution is then not idempotent, and depends on the
  order of the entries, although the replacement has no word at all. With the phrase key
  of \<open>research_and\<close>, whose replacements hold no key, the result depends on the order of
  the entries. A letter that is not ASCII ends a word: the replacement of \<open>Muller\<close> in
  \<open>meter_muller\<close>, written with the letter of code 252, has the words \<open>M\<close> and \<open>ller\<close>,
  the first of which is the key \<open>m\<close> up to case; the dictionary is not
  \<open>vocabulary_disjoint\<close>, and on it the substitution is neither idempotent nor independent
  of the order.
\<close>

lemma non_ascii_letter_ends_word:
  "word_runs (''M'' @ [CHR 0xFC] @ ''ller'') = [''M'', ''ller'']
   \<and> \<not> vocabulary_disjoint meter_muller
   \<and> apply_dictionary example_engine meter_muller ''Muller'' = Inr (''M'' @ [CHR 0xFC] @ ''ller'')
   \<and> apply_dictionary example_engine meter_muller (''M'' @ [CHR 0xFC] @ ''ller'')
       = Inr (''meter'' @ [CHR 0xFC] @ ''ller'')
   \<and> apply_dictionary example_engine (rev meter_muller) ''Muller''
       = Inr (''meter'' @ [CHR 0xFC] @ ''ller'')"
  by code_simp

lemma dollar_replacement_not_idempotent:
  "vocabulary_disjoint [\<lparr>word = ''a'', replacement = ''$& $&''\<rparr>]
   \<and> apply_dictionary example_engine [\<lparr>word = ''a'', replacement = ''$& $&''\<rparr>] ''a'' = Inr ''a a''
   \<and> apply_dictionary example_engine [\<lparr>word = ''a'', replacement = ''$& $&''\<rparr>] ''a a''
       = Inr ''a a a a''"
  by code_simp

lemma dollar_replacement_depends_on_order:
  "plain_keys [\<lparr>word = ''a'', replacement = ''$&$&''\<rparr>, \<lparr>word = ''aa'', replacement = ''x''\<rparr>]
   \<and> vocabulary_disjoint
         [\<lparr>word = ''a'', replacement = ''$&$&''\<rparr>, \<lparr>word = ''aa'', replacement = ''x''\<rparr>]
   \<and> keys_differ [\<lparr>word = ''a'', replacement = ''$&$&''\<rparr>, \<lparr>word = ''aa'', replacement = ''x''\<rparr>]
   \<and> apply_dictionary example_engine
         [\<lparr>word = ''a'', replacement = ''$&$&''\<rparr>, \<lparr>word = ''aa'', replacement = ''x''\<rparr>] ''a''
       = Inr ''x''
   \<and> apply_dictionary example_engine
         [\<lparr>word = ''aa'', replacement = ''x''\<rparr>, \<lparr>word = ''a'', replacement = ''$&$&''\<rparr>] ''a''
       = Inr ''aa''"
  by code_simp

lemma phrase_key_depends_on_order:
  "vocabulary_disjoint research_and \<and> keys_differ research_and
   \<and> apply_dictionary example_engine research_and ''R and D'' = Inr ''R & D''
   \<and> apply_dictionary example_engine (rev research_and) ''R and D'' = Inr ''research''"
  by code_simp

text \<open>
  C5. The duration of the note is to be the time of the stop minus the time at which
  this recording started. In both versions of the component \<^verbatim>\<open>onstop\<close> subtracts the
  \<^verbatim>\<open>recordingStart\<close> of the render in which \<^verbatim>\<open>startRecording\<close> ran, which is the value
  from before this recording: 0 for the first recording (lemma \<open>stored_duration\<close>). A
  first recording started at time 1000, when \<^verbatim>\<open>recordingStart\<close> becomes 1000, and stopped
  at time 4000 is stored with the duration 4000, not 3000.
\<close>

theorem C5_duration_of_first_recording:
  "recordingStart (app (startRecording example_env 1000 signed_in)) = 1000
   \<and> map duration (voiceNotes (app (onstop example_env 4000 4001 4002
         (stopRecording (dataavailable [1, 2, 3] (startRecording example_env 1000 signed_in))))))
       = [4000]
   \<and> map duration (voiceNotes (app (onstop_part_000 example_env 4000 4001 4002
         (stopRecording (dataavailable [1, 2, 3] (startRecording example_env 1000 signed_in))))))
       = [4000]"
  by code_simp

text \<open>
  C6. For each operation on the store (the note created by the pipeline, a note
  deleted, a dictionary entry created, a dictionary entry deleted; in both versions of
  the component), the handler leaves \<^verbatim>\<open>voiceNotes\<close> and \<^verbatim>\<open>dictionary\<close> as they were unless
  its call to the store has resolved: a failing remote call changes neither collection.
\<close>

theorem C6_collections_change_after_resolved_write_only:
  "collections_guarded env w (processRecording env dict usr ac dur t_id t_ts w)
 \<and> collections_guarded env w (addDictionaryEntry env w)
 \<and> collections_guarded env w (deleteDictionaryEntry env wd w)
 \<and> collections_guarded env w (deleteNote env i w)
 \<and> collections_guarded env' w' (processRecording_part_000 env' dict' usr ac dur t_id t_ts w')
 \<and> collections_guarded env' w' (addDictionaryEntry_part_000 env' w')
 \<and> collections_guarded env' w' (deleteDictionaryEntry_part_000 env' wd w')
 \<and> collections_guarded env' w' (deleteNote env' i w')"
  by (simp add: processRecording_guarded processRecording_part_000_guarded
      addDictionaryEntry_guarded addDictionaryEntry_part_000_guarded delete_entry_guarded
      deleteNote_guarded deleteDictionaryEntry_def deleteDictionaryEntry_part_000_def)

text \<open>
  Witness of C6: with a store that rejects every call, deleting the entry \<open>gonna\<close>
  leaves the dictionary as it was, and a recording leaves the list of notes empty.
\<close>

theorem C6_collections_change_after_resolved_write_only_witness:
  "dictionary (app (deleteDictionaryEntry failing_env ''gonna'' (with_dictionary gonna_wanna)))
     = gonna_wanna
   \<and> voiceNotes (app (processRecording failing_env gonna_wanna (Some example_user)
        (Some [[1, 2, 3]]) 3000 4001 4002 (with_dictionary gonna_wanna))) = []"
  using C6_collections_change_after_resolved_write_only
    [of failing_env "with_dictionary gonna_wanna" gonna_wanna "Some example_user"
      "Some [[1, 2, 3]]" 3000 4001 4002 "''gonna''" "''1''" failing_env "with_dictionary []" "[]"]
  by (simp add: collections_guarded_def new_calls_def store_write_resolved_def resolved_def
      processRecording_def processRecording_try_def finish_recording_simps
      verify_audio_data_def convert_to_base64_def
      deleteDictionaryEntry_def delete_entry_def report_def failing_env_def example_env_def
      with_dictionary_def signed_in_def initial_world_def initial_state_def)

text \<open>
  C7. When the words of the dictionary are pairwise different, the word \<open>wd\<close> is one of
  them and the remote delete resolves, \<^verbatim>\<open>deleteDictionaryEntry\<close> removes exactly one
  entry, the one with the word \<open>wd\<close>, and keeps every other entry, in the same order. This
  holds for both versions of the component. (C6 is the case of a remote delete that
  fails.)
\<close>

theorem C7_delete_removes_exactly_one:
  fixes w :: "DictionaryEntry world" and w' :: "DictionaryWord world"
  assumes "distinct (map word (dictionary (app w)))"
      and "wd \<in> set (map word (dictionary (app w)))"
      and "dictionary_entries_delete env wd = Inr ()"
      and "distinct (map word (dictionary (app w')))"
      and "wd' \<in> set (map word (dictionary (app w')))"
      and "dictionary_entries_delete env' wd' = Inr ()"
  shows "(\<exists>xs entry ys.
           dictionary (app w) = xs @ entry # ys \<and> word entry = wd
           \<and> dictionary (app (deleteDictionaryEntry env wd w)) = xs @ ys
           \<and> wd \<notin> set (map word (xs @ ys)))
       \<and> (\<exists>xs entry ys.
           dictionary (app w') = xs @ entry # ys \<and> word entry = wd'
           \<and> dictionary (app (deleteDictionaryEntry_part_000 env' wd' w')) = xs @ ys
           \<and> wd' \<notin> set (map word (xs @ ys)))"
  using filter_removes_one [OF assms(1,2)] filter_removes_one [OF assms(4,5)] assms(3,6)
  by (simp add: deleteDictionaryEntry_def deleteDictionaryEntry_part_000_def delete_entry_def)

theorem C7_delete_removes_exactly_one_witness:
  "dictionary (app (deleteDictionaryEntry example_env ''gonna'' (with_dictionary gonna_wanna)))
     = [\<lparr>word = ''wanna'', replacement = ''want to''\<rparr>]
   \<and> dictionary (app (deleteDictionaryEntry_part_000 example_env ''wanna''
        (with_dictionary [\<lparr>word = ''gonna''\<rparr>, \<lparr>word = ''wanna''\<rparr>])))
     = [\<lparr>word = ''gonna''\<rparr>]"
proof -
  let ?w = "with_dictionary gonna_wanna"
  let ?w' = "with_dictionary [\<lparr>word = ''gonna''\<rparr>, \<lparr>word = ''wanna''\<rparr>]"
  have d: "dictionary (app ?w) = gonna_wanna"
     "dictionary (app ?w') = [\<lparr>word = ''gonna''\<rparr>, \<lparr>word = ''wanna''\<rparr>]"
    by (simp_all add: with_dictionary_def)
  have "distinct (map word (dictionary (app ?w)))"
      "''gonna'' \<in> set (map word (dictionary (app ?w)))"
      "dictionary_entries_delete (example_env :: DictionaryEntry env) ''gonna'' = Inr ()"
      "distinct (map word (dictionary (app ?w')))"
      "''wanna'' \<in> set (map word (dictionary (app ?w')))"
      "dictionary_entries_delete (example_env :: DictionaryWord env) ''wanna'' = Inr ()"
    by (simp_all add: with_dictionary_def gonna_wanna_def example_env_def)
  from C7_delete_removes_exactly_one [OF this]
  obtain xs entry ys xs' entry' ys'
    where a: "gonna_wanna = xs @ entry # ys" "word entry = ''gonna''"
        "dictionary (app (deleteDictionaryEntry example_env ''gonna'' ?w)) = xs @ ys"
        "''gonna'' \<notin> set (map word (xs @ ys))"
      and b: "[\<lparr>word = ''gonna''\<rparr>, \<lparr>word = ''wanna''\<rparr>] = xs' @ entry' # ys'"
        "word entry' = ''wanna''"
        "dictionary (app (deleteDictionaryEntry_part_000 example_env ''wanna'' ?w')) = xs' @ ys'"
        "''wanna'' \<notin> set (map word (xs' @ ys'))"
    unfolding d by blast
  from a(1,2,4) have "xs @ ys = [\<lparr>word = ''wanna'', replacement = ''want to''\<rparr>]"
    by (auto simp: gonna_wanna_def Cons_eq_append_conv)
  moreover from b(1,2,4) have "xs' @ ys' = [\<lparr>word = ''gonna''\<rparr>]"
    by (auto simp: Cons_eq_append_conv)
  ultimately show ?thesis
    using a(3) b(3) by simp
qed

text \<open>
  C8. The encoder stage (the checks of the recorded audio and the conversion to base64)
  reports its two conditions with different errors. No data captured is the error
  \<open>No audio data recorded\<close> (no chunk) or \<open>Audio recording is empty\<close> (chunks of zero
  bytes in total), and these are the only errors of the checks; an empty encoding is the
  error \<open>Failed to convert audio to base64\<close>, and a failing reader is the reader's
  event. No error of the checks is ever an error of the conversion, so the error tells
  which condition occurred.
\<close>

theorem C8_encoder_errors_distinct:
  "(verify_audio_data audioChunks = Inl e \<longrightarrow> convert_to_base64 env audioBlob \<noteq> Inl e)
 \<and> (verify_audio_data audioChunks = Inl (Error ''No audio data recorded'')
        \<longleftrightarrow> audioChunks = None \<or> audioChunks = Some [])
 \<and> (verify_audio_data audioChunks = Inl (Error ''Audio recording is empty'')
        \<longleftrightarrow> (\<exists>cs. audioChunks = Some cs \<and> cs \<noteq> [] \<and> concat cs = []))
 \<and> ((\<exists>b. verify_audio_data audioChunks = Inr b)
        \<longleftrightarrow> (\<exists>cs. audioChunks = Some cs \<and> concat cs \<noteq> []))
 \<and> (convert_to_base64 env audioBlob = Inl (Error ''Failed to convert audio to base64'')
        \<longleftrightarrow> (\<exists>dataUrl. readAsDataURL env audioBlob = Some dataUrl
               \<and> (second (split_on CHR '','' dataUrl) = None
                    \<or> second (split_on CHR '','' dataUrl) = Some [])))
 \<and> (convert_to_base64 env audioBlob = Inl ProgressEvent \<longleftrightarrow> readAsDataURL env audioBlob = None)
 \<and> (verify_audio_data audioChunks = Inl e
      \<or> verify_audio_data audioChunks = Inr audioBlob \<and> convert_to_base64 env audioBlob = Inl e \<longrightarrow>
        console (processRecording env dict usr audioChunks dur t_id t_ts w)
          = console w @ [(''Error processing recording:'', e)])
 \<and> (verify_audio_data audioChunks = Inl e
      \<or> verify_audio_data audioChunks = Inr audioBlob \<and> convert_to_base64 env' audioBlob = Inl e \<longrightarrow>
        console (processRecording_part_000 env' dict' usr audioChunks dur t_id t_ts w')
          = console w' @ [(''Error processing recording:'', e)])"
proof -
  have a: "(verify_audio_data audioChunks = Inl e \<longrightarrow> convert_to_base64 env audioBlob \<noteq> Inl e)
 \<and> (verify_audio_data audioChunks = Inl (Error ''No audio data recorded'')
        \<longleftrightarrow> audioChunks = None \<or> audioChunks = Some [])
 \<and> (verify_audio_data audioChunks = Inl (Error ''Audio recording is empty'')
        \<longleftrightarrow> (\<exists>cs. audioChunks = Some cs \<and> cs \<noteq> [] \<and> concat cs = []))
 \<and> ((\<exists>b. verify_audio_data audioChunks = Inr b)
        \<longleftrightarrow> (\<exists>cs. audioChunks = Some cs \<and> concat cs \<noteq> []))
 \<and> (convert_to_base64 env audioBlob = Inl (Error ''Failed to convert audio to base64'')
        \<longleftrightarrow> (\<exists>dataUrl. readAsDataURL env audioBlob = Some dataUrl
               \<and> (second (split_on CHR '','' dataUrl) = None
                    \<or> second (split_on CHR '','' dataUrl) = Some [])))
 \<and> (convert_to_base64 env audioBlob = Inl ProgressEvent \<longleftrightarrow> readAsDataURL env audioBlob = None)"
    by (auto simp: verify_audio_data_def convert_to_base64_def Let_def
        split: option.splits if_splits)
  have b: "console (processRecording env dict usr audioChunks dur t_id t_ts w)
          = console w @ [(''Error processing recording:'', e)]"
    if "verify_audio_data audioChunks = Inl e
      \<or> verify_audio_data audioChunks = Inr audioBlob \<and> convert_to_base64 env audioBlob = Inl e"
    using that
    by (auto simp: processRecording_def try_stops_at_check try_stops_at_encoding
        finish_recording_simps)
  have c: "console (processRecording_part_000 env' dict' usr audioChunks dur t_id t_ts w')
          = console w' @ [(''Error processing recording:'', e)]"
    if "verify_audio_data audioChunks = Inl e
      \<or> verify_audio_data audioChunks = Inr audioBlob \<and> convert_to_base64 env' audioBlob = Inl e"
    using that
    by (auto simp: processRecording_part_000_def try_stops_at_check try_stops_at_encoding
        finish_recording_simps)
  from a b c show ?thesis by blast
qed

theorem C8_encoder_errors_distinct_witness:
  "verify_audio_data (Some [[]]) = Inl (Error ''Audio recording is empty'')
   \<and> convert_to_base64 (example_env\<lparr>readAsDataURL := (\<lambda>b. Some ''data:audio/webm;base64,'')\<rparr>) [1, 2, 3]
       = Inl (Error ''Failed to convert audio to base64'')
   \<and> Error ''Audio recording is empty'' \<noteq> Error ''Failed to convert audio to base64''"
proof -
  let ?env = "example_env\<lparr>readAsDataURL := (\<lambda>b. Some ''data:audio/webm;base64,'')\<rparr>"
  have v: "verify_audio_data (Some [[]]) = Inl (Error ''Audio recording is empty'')"
    by (simp add: verify_audio_data_def)
  have "second (split_on CHR '','' ''data:audio/webm;base64,'') = Some []" by simp
  then have c: "convert_to_base64 ?env [1, 2, 3] = Inl (Error ''Failed to convert audio to base64'')"
    by (simp add: convert_to_base64_def example_env_def)
  from C8_encoder_errors_distinct [of "Some [[]]" "Error ''Audio recording is empty''" ?env "[1, 2, 3]"] v c
  show ?thesis by simp
qed
text \<open>
  C9. The pipeline runs its steps in sequence and stops at the first that fails, in
  both versions of the component: the calls made are an initial part of encoding,
  transcription, correction, store write, in that order, and each call but the last has
  resolved; a failing check makes no call, a failing conversion follows the reader's call
  only, a failing substitution comes before any call for correction or store, and without
  a user no note is stored; after a failure no note is added to the list or shown, no
  write to the store has resolved, and the transcribing flag is cleared.
\<close>

theorem C9_pipeline_stops_at_first_failure:
  "aborts_at_failure env (processRecording_try env dict usr ac dur t_id t_ts) w
     (processRecording env dict usr ac dur t_id t_ts w)
 \<and> aborts_at_failure env' (processRecording_part_000_try env' dict' usr ac dur t_id t_ts) w'
     (processRecording_part_000 env' dict' usr ac dur t_id t_ts w')
 \<and> (verify_audio_data ac = Inl e \<longrightarrow>
       processRecording_try env dict usr ac dur t_id t_ts = (Inl e, [])
       \<and> processRecording_part_000_try env' dict' usr ac dur t_id t_ts = (Inl e, []))
 \<and> (verify_audio_data ac = Inr b \<and> convert_to_base64 env b = Inl e \<longrightarrow>
       processRecording_try env dict usr ac dur t_id t_ts = (Inl e, [ReadAsDataURL b]))
 \<and> (verify_audio_data ac = Inr b \<and> convert_to_base64 env' b = Inl e \<longrightarrow>
       processRecording_part_000_try env' dict' usr ac dur t_id t_ts = (Inl e, [ReadAsDataURL b]))
 \<and> (verify_audio_data ac = Inr b \<and> convert_to_base64 env b = Inr a
      \<and> transcribeAudio env a ''en'' = Inr t \<and> apply_dictionary (regexp_ext env) dict t = Inl e \<longrightarrow>
       processRecording_try env dict usr ac dur t_id t_ts
         = (Inl e, [ReadAsDataURL b, TranscribeAudio a ''en'']))
 \<and> (usr = None \<longrightarrow>
       fst (processRecording_try env dict usr ac dur t_id t_ts) \<noteq> Inr n
       \<and> fst (processRecording_part_000_try env' dict' usr ac dur t_id t_ts) \<noteq> Inr n)"
  by (intro conjI impI; (elim conjE)?)
     (simp_all add: processRecording_aborts processRecording_part_000_aborts
        try_stops_at_check try_stops_at_encoding try_stops_at_substitution try_needs_user)

theorem C9_pipeline_stops_at_first_failure_witness:
  "processRecording_try failing_env gonna_wanna (Some example_user) (Some [[1, 2, 3]]) 3000 4001 4002
     = (Inl (ServiceError ''transcription unavailable''),
        [ReadAsDataURL [1, 2, 3], TranscribeAudio ''AQID'' ''en''])
   \<and> \<not> isTranscribing (app (processRecording failing_env gonna_wanna (Some example_user)
          (Some [[1, 2, 3]]) 3000 4001 4002 (stopRecording (startRecording failing_env 1000 signed_in))))
   \<and> voiceNotes (app (processRecording failing_env gonna_wanna (Some example_user)
          (Some [[1, 2, 3]]) 3000 4001 4002 (stopRecording (startRecording failing_env 1000 signed_in))))
       = []"
  using C9_pipeline_stops_at_first_failure [of failing_env gonna_wanna "Some example_user" "Some [[1, 2, 3]]" 3000 4001 4002
      "stopRecording (startRecording failing_env 1000 signed_in)"]
  by (simp add: aborts_at_failure_def processRecording_try_def verify_audio_data_def
      convert_to_base64_def failing_env_def example_env_def
      stopRecording_def startRecording_def signed_in_def initial_world_def initial_state_def)

text \<open>
  C10. The recorder's data handler buffers no chunk of size zero. So a recorder that
  \<^verbatim>\<open>startRecording\<close> has created holds, after any sequence of slices, chunks that are all
  non-empty; when it holds a chunk at all, the blob built from them is not empty and
  passes both checks: the branch \<open>Audio recording is empty\<close> is never taken on what a
  recorder has produced.
\<close>

theorem C10_recorded_audio_not_empty:
  fixes w :: "'e world"
  assumes "getUserMedia env = Inr ()"
      and "mediaRecorder (app (deliver slices (startRecording env now w))) = Some recorder"
  shows "[] \<notin> set (chunks recorder)
       \<and> (chunks recorder \<noteq> [] \<longrightarrow>
            0 < length (concat (chunks recorder))
            \<and> verify_audio_data (Some (chunks recorder)) = Inr (concat (chunks recorder)))
       \<and> verify_audio_data (Some (chunks recorder)) \<noteq> Inl (Error ''Audio recording is empty'')"
proof -
  have "chunks recorder = buffered [] slices"
    using recorded_chunks [OF assms(1), of slices now w] assms(2) by simp
  then have n: "[] \<notin> set (chunks recorder)"
    using buffered_nonempty [of "[]" slices] by simp
  then have "chunks recorder \<noteq> [] \<Longrightarrow> concat (chunks recorder) \<noteq> []"
    by (rule concat_nonempty [rotated])
  with n show ?thesis
    by (auto simp: verify_audio_data_def Let_def)
qed

theorem C10_recorded_audio_not_empty_witness:
  "map_option chunks (mediaRecorder (app (deliver [[1, 2], [], [3]] (startRecording example_env 1000
        (signed_in :: DictionaryEntry world)))))
     = Some [[1, 2], [3]]
   \<and> verify_audio_data (Some [[1, 2], [3]]) = Inr [1, 2, 3]"
proof -
  let ?w = "deliver [[1, 2], [], [3]] (startRecording example_env 1000 signed_in) :: DictionaryEntry world"
  have g: "getUserMedia (example_env :: DictionaryEntry env) = Inr ()"
    by (simp add: example_env_def)
  have m: "mediaRecorder (app ?w) =
        Some \<lparr>rec_state = Recording, chunks = [[1, 2], [3]], onstop_recordingStart = 0,
              onstop_dictionary = [], onstop_user = Some example_user\<rparr>"
    by (simp add: startRecording_def dataavailable_def ondataavailable_def example_env_def
        signed_in_def initial_world_def initial_state_def)
  from C10_recorded_audio_not_empty [OF g m] m show ?thesis
    by simp
qed


end
